theory Spec2Isabelle
  imports Complex_Main "HOL-Library.Log_Nat"
begin

section \<open>The token-bucket rate limiter (class RateLimiter)\<close>

text \<open>
  The wall clock is the sequence of values that successive calls of \<open>Date.now()\<close> return:
  \<open>clk k\<close> is the reading of the \<open>k\<close>-th call. A limiter method runs on the pair of the
  limiter's fields and the number of readings taken so far, and returns the pair it leaves
  behind. Readings are whole milliseconds, below \<open>2^53\<close> in absolute value as every time
  value of the language is.

  The fields \<open>tokens\<close>, \<open>refillRate\<close> and \<open>maxTokens\<close> have the TypeScript type
  \<open>number\<close>, a 64-bit IEEE-754 double. A number is modelled by the rational that it
  denotes; \<open>NaN\<close> and the infinities are not modelled. The quotient of two doubles is in
  general not a double, and the division of the language returns the double nearest to it:
  the divisions of the limiter are modelled with that rounding (\<open>to_double\<close> below). The
  sums and differences of the limiter are modelled exactly. That is what the language
  computes as long as the token counts are whole and at most \<open>2^53\<close> (a sum that passes
  \<open>2^53\<close> is rounded, but it is then above the capacity, which replaces it), and also on
  halves such as \<open>0.5\<close>; on other fractions the language rounds the sum in its last place.
\<close>

type_synonym clock = "nat \<Rightarrow> int"

subsection \<open>Rounding to a double\<close>

text \<open>
  \<open>exponent_of x\<close> is the binary exponent of \<open>x \<noteq> 0\<close>: the \<open>e\<close> with
  \<open>2^e \<le> \<bar>x\<bar> < 2^(e+1)\<close>.
\<close>

definition exponent_of :: "rat \<Rightarrow> int" where
  "exponent_of x =
     (if 1 \<le> \<bar>x\<bar> then bitlen \<lfloor>\<bar>x\<bar>\<rfloor> - 1 else - bitlen (\<lceil>1 / \<bar>x\<bar>\<rceil> - 1))"

definition two_to :: "int \<Rightarrow> rat" where
  "two_to e = (if 0 \<le> e then 2 ^ nat e else 1 / 2 ^ nat (- e))"

text \<open>The integer nearest to \<open>m\<close>; of two that are equally near, the even one.\<close>

definition round_even :: "rat \<Rightarrow> int" where
  "round_even m =
     (let f = \<lfloor>m\<rfloor>; r = m - of_int f
      in if r < 1 / 2 then f else if 1 / 2 < r then f + 1 else if even f then f else f + 1)"

text \<open>
  \<open>to_double x\<close> is the double nearest to \<open>x\<close>, as IEEE 754 rounds the exact result of an
  operation (to nearest, ties to the even mantissa): a mantissa of 53 bits at the exponent of
  \<open>x\<close>, and below \<open>2^-1022\<close> the fixed spacing \<open>2^-1074\<close> of the subnormal numbers. The
  overflow to infinity of a result of \<open>2^1024\<close> or more is not modelled.
\<close>

definition to_double :: "rat \<Rightarrow> rat" where
  "to_double x =
     (if x = 0 then 0
      else let ulp = two_to (max (exponent_of x) (- 1022) - 52)
           in sgn x * of_int (round_even (\<bar>x\<bar> / ulp)) * ulp)"

definition is_double :: "rat \<Rightarrow> bool" where
  "is_double x \<longleftrightarrow> to_double x = x"

subsection \<open>The class\<close>

record RateLimiter =
  tokens :: rat
  lastRefillTime :: int
  refillRate :: rat
  maxTokens :: rat

text \<open>
  Thrown values are error objects with a message: \<open>Error\<close>, \<open>TypeError\<close> and axios's
  \<open>AxiosError\<close>.
\<close>

datatype thrown = Error string | TypeError string | AxiosError string

fun message_of :: "thrown \<Rightarrow> string" where
  "message_of (Error m) = m"
| "message_of (TypeError m) = m"
| "message_of (AxiosError m) = m"

text \<open>The constructor: it throws unless both options are greater than zero.\<close>

definition new_RateLimiter :: "clock \<Rightarrow> rat \<Rightarrow> rat \<Rightarrow> nat \<Rightarrow> thrown + RateLimiter \<times> nat" where
  "new_RateLimiter clk maxTokens' refillRate' k =
     (if refillRate' \<le> 0 \<or> maxTokens' \<le> 0
      then Inl (Error ''Refill rate and max tokens must be greater than zero.'')
      else Inr (\<lparr>tokens = maxTokens', lastRefillTime = clk k,
                 refillRate = refillRate', maxTokens = maxTokens'\<rparr>, Suc k))"

definition refill :: "clock \<Rightarrow> RateLimiter \<times> nat \<Rightarrow> RateLimiter \<times> nat" where
  "refill clk s =
     (case s of (rl, k) \<Rightarrow>
        let now = clk k;
            elapsedTime = now - lastRefillTime rl;
            tokensToAdd = \<lfloor>to_double (of_int elapsedTime / refillRate rl)\<rfloor>
        in (rl\<lparr>tokens := min (tokens rl + of_int tokensToAdd) (maxTokens rl),
                lastRefillTime := now\<rparr>, Suc k))"

text \<open>\<open>hasHitRateLimit\<close> answers \<open>True\<close> when the call is rejected, \<open>False\<close> when it is admitted.\<close>

definition hasHitRateLimit :: "clock \<Rightarrow> RateLimiter \<times> nat \<Rightarrow> bool \<times> RateLimiter \<times> nat" where
  "hasHitRateLimit clk s =
     (case refill clk s of (rl, k) \<Rightarrow>
        if tokens rl > 0 then (False, rl\<lparr>tokens := tokens rl - 1\<rparr>, k)
        else (True, rl, k))"

text \<open>The second reading of the clock is taken only when no token is available.\<close>

definition getTimeUntilCanMakeRequest :: "clock \<Rightarrow> RateLimiter \<times> nat \<Rightarrow> rat \<times> RateLimiter \<times> nat" where
  "getTimeUntilCanMakeRequest clk s =
     (case refill clk s of (rl, k) \<Rightarrow>
        if tokens rl > 0 then (0, rl, k)
        else
          let now = clk k;
              elapsedTime = now - lastRefillTime rl;
              timeUntilAvailable = max 0 (refillRate rl - of_int elapsedTime)
          in (timeUntilAvailable, rl, Suc k))"

text \<open>
  \<open>waitUntilCanMakeRequest\<close> sleeps for the computed time when it is positive and then sets
  the token count to the maximum. The sleep takes no reading of the clock and changes no
  field; its length is returned beside the state (\<open>None\<close> when the method does not sleep).
\<close>

definition waitUntilCanMakeRequest :: "clock \<Rightarrow> RateLimiter \<times> nat \<Rightarrow> rat option \<times> RateLimiter \<times> nat" where
  "waitUntilCanMakeRequest clk s =
     (case getTimeUntilCanMakeRequest clk s of (timeToWait, rl, k) \<Rightarrow>
        ((if timeToWait > 0 then Some timeToWait else None),
         rl\<lparr>tokens := maxTokens rl\<rparr>, k))"

subsection \<open>Sequences of limiter calls\<close>

datatype rl_call = HasHitRateLimit | GetTimeUntilCanMakeRequest | WaitUntilCanMakeRequest

fun rl_step :: "clock \<Rightarrow> rl_call \<Rightarrow> RateLimiter \<times> nat \<Rightarrow> RateLimiter \<times> nat" where
  "rl_step clk HasHitRateLimit s = snd (hasHitRateLimit clk s)"
| "rl_step clk GetTimeUntilCanMakeRequest s = snd (getTimeUntilCanMakeRequest clk s)"
| "rl_step clk WaitUntilCanMakeRequest s = snd (waitUntilCanMakeRequest clk s)"

fun rl_run :: "clock \<Rightarrow> rl_call list \<Rightarrow> RateLimiter \<times> nat \<Rightarrow> RateLimiter \<times> nat" where
  "rl_run clk [] s = s"
| "rl_run clk (c # cs) s = rl_run clk cs (rl_step clk c s)"

definition tokens_in_range :: "RateLimiter \<Rightarrow> bool" where
  "tokens_in_range rl \<longleftrightarrow> 0 \<le> tokens rl \<and> tokens rl \<le> maxTokens rl"

definition whole :: "rat \<Rightarrow> bool" where
  "whole x \<longleftrightarrow> x = of_int \<lfloor>x\<rfloor>"

text \<open>A clock whose first reading is \<open>t0\<close> and that advances by \<open>d\<close> ms from one reading to the next.\<close>

definition steady :: "int \<Rightarrow> int \<Rightarrow> clock" where
  "steady t0 d k = t0 + d * int k"

subsection \<open>The waiting time as text\<close>

fun string_of_nat :: "nat \<Rightarrow> string" where
  "string_of_nat n =
     (if n < 10 then [''0123456789'' ! n]
      else string_of_nat (n div 10) @ [''0123456789'' ! (n mod 10)])"

declare string_of_nat.simps [simp del]

definition string_of_int :: "int \<Rightarrow> string" where
  "string_of_int i = (if i < 0 then ''-'' @ string_of_nat (nat (- i)) else string_of_nat (nat i))"

text \<open>
  The text of a number in a template literal. A whole number below \<open>10^21\<close> in absolute value
  is printed in plain decimal digits. The text of any other number is fixed by the
  language's shortest-round-trip printing of doubles, which is taken as the parameter \<open>other\<close>.
\<close>

definition number_text :: "(rat \<Rightarrow> string) \<Rightarrow> rat \<Rightarrow> string" where
  "number_text other r =
     (if whole r \<and> \<bar>r\<bar> < 10 ^ 21 then string_of_int \<lfloor>r\<rfloor> else other r)"

definition plural :: "int \<Rightarrow> string" where
  "plural n = (if n \<noteq> 1 then ''s'' else [])"

definition getTimeUntilCanMakeRequestString ::
  "(rat \<Rightarrow> string) \<Rightarrow> clock \<Rightarrow> RateLimiter \<times> nat \<Rightarrow> string \<times> RateLimiter \<times> nat" where
  "getTimeUntilCanMakeRequestString other clk s =
     (case getTimeUntilCanMakeRequest clk s of (timeUntilAvailable, rl, k) \<Rightarrow>
        ((if timeUntilAvailable = 0 then ''Now''
          else if timeUntilAvailable < 1000
            then number_text other timeUntilAvailable @ '' milliseconds''
          else
            let seconds = \<lfloor>to_double (timeUntilAvailable / 1000)\<rfloor> in
            if seconds < 60
              then number_text other (of_int seconds) @ '' second'' @ plural seconds
            else
              let minutes = \<lfloor>to_double (of_int seconds / 60)\<rfloor> in
              if minutes < 60
                then number_text other (of_int minutes) @ '' minute'' @ plural minutes
              else
                let hours = \<lfloor>to_double (of_int minutes / 60)\<rfloor> in
                number_text other (of_int hours) @ '' hour'' @ plural hours),
         rl, k))"

section \<open>JavaScript values\<close>

text \<open>
  Payloads, parameters and notifications are JavaScript values. An object is the list of
  its own properties in insertion order. Numbers that occur in payloads are whole.
  Arrays, functions and dates do not occur in what the dispatcher itself reads or builds.
\<close>

datatype jsval =
    JUndefined
  | JNull
  | JBool bool
  | JNum int
  | JStr string
  | JObj "(string \<times> jsval) list"

type_synonym jsobj = "(string \<times> jsval) list"

text \<open>\<open>obj_set ps k v\<close> is the object literal \<open>{...ps, k: v}\<close>.\<close>

fun obj_set :: "jsobj \<Rightarrow> string \<Rightarrow> jsval \<Rightarrow> jsobj" where
  "obj_set [] k v = [(k, v)]"
| "obj_set ((k', v') # ps) k v =
     (if k' = k then (k, v) # ps else (k', v') # obj_set ps k v)"

text \<open>Reading a property of an object that is known to be one: a missing key reads \<open>undefined\<close>.\<close>

definition obj_get :: "jsobj \<Rightarrow> string \<Rightarrow> jsval" where
  "obj_get ps k = (case map_of ps k of Some v \<Rightarrow> v | None \<Rightarrow> JUndefined)"

text \<open>The indexed characters of a string, which are its own enumerable properties.\<close>

definition str_entries :: "string \<Rightarrow> jsobj" where
  "str_entries s = map (\<lambda>(i, c). (string_of_nat i, JStr [c])) (enumerate 0 s)"

text \<open>\<open>spread v\<close> is the object literal \<open>{...v}\<close>: spreading \<open>null\<close>, \<open>undefined\<close>, a boolean
  or a number adds nothing.\<close>

fun spread :: "jsval \<Rightarrow> jsobj" where
  "spread (JObj ps) = ps"
| "spread (JStr s) = str_entries s"
| "spread _ = []"

text \<open>The conversion \<open>String(v)\<close>.\<close>

fun to_String :: "jsval \<Rightarrow> string" where
  "to_String JUndefined = ''undefined''"
| "to_String JNull = ''null''"
| "to_String (JBool b) = (if b then ''true'' else ''false'')"
| "to_String (JNum n) = string_of_int n"
| "to_String (JStr s) = s"
| "to_String (JObj ps) = ''[object Object]''"

text \<open>Truthiness, as \<open>if (v)\<close> tests it.\<close>

fun truthy :: "jsval \<Rightarrow> bool" where
  "truthy JUndefined = False"
| "truthy JNull = False"
| "truthy (JBool b) = b"
| "truthy (JNum n) = (n \<noteq> 0)"
| "truthy (JStr s) = (s \<noteq> [])"
| "truthy (JObj ps) = True"

definition startsWith :: "string \<Rightarrow> string \<Rightarrow> bool" where
  "startsWith s p \<longleftrightarrow> take (length p) s = p"

text \<open>
  Reading a property of \<open>null\<close> or \<open>undefined\<close> throws a \<open>TypeError\<close> (the message is
  the one of the V8 engine); on any other value a key that is not there reads \<open>undefined\<close>.
\<close>

definition cannot_read :: "jsval \<Rightarrow> string \<Rightarrow> thrown" where
  "cannot_read v k =
     TypeError (''Cannot read properties of '' @ to_String v @ '' (reading ''
                @ [CHR 0x27] @ k @ [CHR 0x27] @ '')'')"

fun get_prop :: "jsval \<Rightarrow> string \<Rightarrow> thrown + jsval" where
  "get_prop JUndefined k = Inl (cannot_read JUndefined k)"
| "get_prop JNull k = Inl (cannot_read JNull k)"
| "get_prop (JObj ps) k = Inr (obj_get ps k)"
| "get_prop (JStr s) k =
     Inr (if k = ''length'' then JNum (int (length s)) else obj_get (str_entries s) k)"
| "get_prop (JBool b) k = Inr JUndefined"
| "get_prop (JNum n) k = Inr JUndefined"

section \<open>The client (class Api)\<close>

datatype EVENT_TYPE =
    INIT | LOG_IN | LOG_OUT | REGISTER | LICENSE | FETCH_STATS | BAN | CHANGE_USERNAME
  | CHECK_BLACKLIST | CHECK | DOWNLOAD | FETCH_ONLINE | FORGOT_PASSWORD | CHAT_GET | GET_VAR
  | LOG | CHAT_SEND | SET_VAR | UPGRADE | WEBHOOK | VAR
  | REQUEST | RESPONSE | METADATA | ERROR | SESSION | INSTANCE | RATE_LIMIT

fun event_type :: "EVENT_TYPE \<Rightarrow> string" where
  "event_type INIT = ''init''"
| "event_type LOG_IN = ''login''"
| "event_type LOG_OUT = ''logout''"
| "event_type REGISTER = ''register''"
| "event_type LICENSE = ''license''"
| "event_type FETCH_STATS = ''fetchStats''"
| "event_type BAN = ''ban''"
| "event_type CHANGE_USERNAME = ''changeUsername''"
| "event_type CHECK_BLACKLIST = ''checkblacklist''"
| "event_type CHECK = ''check''"
| "event_type DOWNLOAD = ''file''"
| "event_type FETCH_ONLINE = ''fetchOnline''"
| "event_type FORGOT_PASSWORD = ''forgot''"
| "event_type CHAT_GET = ''chatget''"
| "event_type GET_VAR = ''getvar''"
| "event_type LOG = ''log''"
| "event_type CHAT_SEND = ''chatsend''"
| "event_type SET_VAR = ''setvar''"
| "event_type UPGRADE = ''upgrade''"
| "event_type WEBHOOK = ''webhook''"
| "event_type VAR = ''var''"
| "event_type REQUEST = ''request''"
| "event_type RESPONSE = ''response''"
| "event_type METADATA = ''metadata''"
| "event_type ERROR = ''error''"
| "event_type SESSION = ''session''"
| "event_type INSTANCE = ''instance''"
| "event_type RATE_LIMIT = ''ratelimit''"

datatype ERROR_CODE = K_SK | K_NSID | K_NI | K_NLI | K_UVT | K_U | K_NCC | K_ICA

fun error_code :: "ERROR_CODE \<Rightarrow> string" where
  "error_code K_SK = ''seesionKilled''"
| "error_code K_NSID = ''noSessionID''"
| "error_code K_NI = ''notInitialized''"
| "error_code K_NLI = ''notLoggedIn''"
| "error_code K_UVT = ''unsupportedVarType''"
| "error_code K_U = ''unknown''"
| "error_code K_NCC = ''noChatChannel''"
| "error_code K_ICA = ''invalidClientApi''"

record App =
  name :: string
  ver :: string
  ownerid :: string

record Axios =
  baseURL :: string

record Logger =
  silent :: bool
  level :: string

text \<open>
  The fields of the client, and beside them what the client has done so far: the calls of
  \<open>emit\<close> it has made (event name and payload, in order, whether or not a listener
  heard them), the HTTP requests it has handed to axios (the request parameters, in order),
  the waits for admission it has made (the time slept, \<open>None\<close> for a wait that did not
  sleep) and the number of clock readings taken. Of the emitter the model keeps the
  registered listeners, in order of registration: the event each listens to and whether it
  was registered with \<open>once\<close>.
  The lines written by the logger are not part of the model.
\<close>

record Api =
  app :: App
  axiosInstance :: Axios
  logger :: Logger
  rateLimiter :: RateLimiter
  initializedClient :: bool
  convertTimes :: bool
  listeners :: "(string \<times> bool) list"
  emitted :: "(string \<times> jsval) list"
  sent :: "jsval list"
  waited :: "rat option list"
  readings :: nat

text \<open>
  What one HTTP request comes to: axios throws, or it returns a response with a status and
  a payload. The world outside the client is the clock, the outcome of the \<open>n\<close>-th request
  handed to axios, the text of numbers that are not whole, and the text that Node's
  \<open>util.inspect\<close> gives for a value. Two functions that \<open>login\<close>
  and \<open>metaData.get\<close> apply to parts of a successful response are parameters as well:
  the built-in \<open>JSON.parse\<close>, and \<open>convertTimestampsToLocalDates\<close>, which builds \<open>Date\<close>
  objects in the local time zone. Either may throw.
\<close>

datatype http_result = Fails thrown | Responds int jsval

record Env =
  clock_of :: clock
  transport :: "nat \<Rightarrow> http_result"
  other_text :: "rat \<Rightarrow> string"
  inspect :: "jsval \<Rightarrow> string"
  JSON_parse :: "jsval \<Rightarrow> thrown + jsval"
  to_local_dates :: "jsval \<Rightarrow> thrown + jsval"

text \<open>An asynchronous method resolves with a value or rejects, with a value or a thrown error.\<close>

datatype rejection = Reason jsval | Raised thrown

datatype completion = Resolved jsval | Rejected rejection

definition Date_now :: "Env \<Rightarrow> Api \<Rightarrow> int \<times> Api" where
  "Date_now env a = (clock_of env (readings a), a\<lparr>readings := Suc (readings a)\<rparr>)"

definition on_limiter ::
  "(RateLimiter \<times> nat \<Rightarrow> 'a \<times> RateLimiter \<times> nat) \<Rightarrow> Api \<Rightarrow> 'a \<times> Api" where
  "on_limiter f a =
     (case f (rateLimiter a, readings a) of
        (x, rl, k) \<Rightarrow> (x, a\<lparr>rateLimiter := rl, readings := k\<rparr>))"

subsection \<open>The emitter\<close>

text \<open>
  The client's emitter is an instance of \<open>KeyauthEventEmitter\<close>, which adds nothing to the
  class \<open>EventEmitter\<close> of Node's module \<open>events\<close> that it extends. That class is a built-in
  of the platform; its behaviour is taken from Node's documentation. \<open>on\<close> and \<open>once\<close>
  append a listener for an event. \<open>emit\<close> calls the listeners of the event synchronously, in
  the order of registration, and removes those registered with \<open>once\<close>. When the event is
  \<open>"error"\<close> and it has no listener, \<open>emit\<close> throws instead: for a payload that is not an
  \<open>Error\<close>, as all payloads of the client are, an \<open>Error\<close> with the message
  \<open>Unhandled error. (\<dots>)\<close> around the inspected payload. The constructor of the client
  registers no listener.

  What a listener does is outside the model: it is taken to return without throwing and
  without calling the client.
\<close>

definition on :: "string \<Rightarrow> Api \<Rightarrow> Api" where
  "on event a = a\<lparr>listeners := listeners a @ [(event, False)]\<rparr>"

definition once :: "string \<Rightarrow> Api \<Rightarrow> Api" where
  "once event a = a\<lparr>listeners := listeners a @ [(event, True)]\<rparr>"

definition heard :: "EVENT_TYPE \<Rightarrow> Api \<Rightarrow> bool" where
  "heard e a \<longleftrightarrow> event_type e \<in> set (map fst (listeners a))"

text \<open>What the client is after a call of \<open>emit\<close>, whether the call returns or throws.\<close>

definition emit :: "EVENT_TYPE \<Rightarrow> jsval \<Rightarrow> Api \<Rightarrow> Api" where
  "emit e payload a =
     a\<lparr>emitted := emitted a @ [(event_type e, payload)],
       listeners := filter (\<lambda>l. l \<noteq> (event_type e, True)) (listeners a)\<rparr>"

definition unhandled_error :: "Env \<Rightarrow> jsval \<Rightarrow> thrown" where
  "unhandled_error env payload = Error (''Unhandled error. ('' @ inspect env payload @ '')'')"

text \<open>
  \<open>emit_error\<close> is \<open>emit\<close> on the event \<open>"error"\<close>, the one event on which it may throw.
\<close>

definition emit_error :: "Env \<Rightarrow> jsval \<Rightarrow> Api \<Rightarrow> (thrown + unit) \<times> Api" where
  "emit_error env payload a =
     ((if heard ERROR a then Inr () else Inl (unhandled_error env payload)),
      emit ERROR payload a)"

subsection \<open>The dispatcher \<open>_makeRequest\<close>\<close>

text \<open>The three reshaping steps on the payload of a response, in the order of the source.\<close>

definition normalize :: "jsobj \<Rightarrow> int \<Rightarrow> jsval \<Rightarrow> int \<Rightarrow> thrown + jsval" where
  "normalize params status data responseTime =
     (let d1 = (if data = JStr ''KeyAuth_Invalid''
                then JObj [(''success'', JBool False),
                           (''message'', JStr ''Keyauth API client not set up correctly!''),
                           (''time'', JNum responseTime)]
                else data);
          d2 = (if obj_get params ''type'' = JStr (event_type LOG) \<and> status = 200
                then JObj [(''success'', JBool True),
                           (''message'', JStr ''Log successfully sent.'')]
                else d1)
      in if obj_get params ''type'' = JStr (event_type WEBHOOK) \<and> status = 200
         then (case get_prop d2 ''success'' of Inl e \<Rightarrow> Inl e | Inr s \<Rightarrow>
              (case get_prop d2 ''message'' of Inl e \<Rightarrow> Inl e | Inr m \<Rightarrow>
              (case get_prop d2 ''nonce'' of Inl e \<Rightarrow> Inl e | Inr n \<Rightarrow>
              (case get_prop d2 ''response'' of Inl e \<Rightarrow> Inl e | Inr r \<Rightarrow>
                 Inr (JObj [(''success'', s), (''message'', m), (''nonce'', n), (''data'', r)])))))
         else Inr d2)"

text \<open>
  The payload of the "error" notification for a response whose \<open>success\<close> is \<open>false\<close>;
  \<open>m\<close> is the response's \<open>message\<close>.
\<close>

definition error_event :: "jsobj \<Rightarrow> jsval \<Rightarrow> ERROR_CODE \<Rightarrow> jsval" where
  "error_event params m c =
     JObj [(''type'', obj_get params ''type''), (''success'', JBool False),
           (''message'', m), (''errorCode'', JStr (error_code c))]"

definition errorPayload :: "jsobj \<Rightarrow> jsval \<Rightarrow> jsval" where
  "errorPayload params m =
     (if obj_get params ''sessionid'' = JStr [] \<and> startsWith (to_String m) ''Session not found.''
        then error_event params m K_NSID
      else if startsWith (to_String m) ''Session not found.''
        then error_event params (JStr ''The session was killed!'') K_SK
      else if to_String m = ''Chat channel not found''
        then error_event params (JStr ''Chat channel not found'') K_NCC
      else if startsWith (to_String m) ''Keyauth API client''
        then error_event params m K_ICA
      else error_event params m K_U)"

text \<open>
  The \<open>catch\<close> block: both of its branches emit the same notification. What \<open>emit\<close>
  throws there leaves the method.
\<close>

definition catch_block :: "Env \<Rightarrow> jsobj \<Rightarrow> thrown \<Rightarrow> Api \<Rightarrow> (thrown + unit) \<times> Api" where
  "catch_block env params e a =
     (case e of
        AxiosError m \<Rightarrow> emit_error env (error_event params (JStr m) K_U) a
      | _ \<Rightarrow> emit_error env (error_event params (JStr (message_of e)) K_U) a)"

text \<open>
  The branch taken when the limiter rejects: the notice on the "response" channel, the
  second computation of the waiting text (for the logger), and the wait for admission.
\<close>

definition rateLimited :: "Env \<Rightarrow> int \<Rightarrow> Api \<Rightarrow> Api" where
  "rateLimited env startTime a =
     (case on_limiter (getTimeUntilCanMakeRequestString (other_text env) (clock_of env)) a of
        (wait1, a1) \<Rightarrow>
     (case Date_now env a1 of (t, a2) \<Rightarrow>
      let a3 = emit RESPONSE
                 (JObj [(''type'', JStr (event_type RATE_LIMIT)), (''success'', JBool False),
                        (''message'', JStr (''Client Api rate limit hit please wait '' @ wait1)),
                        (''time'', JNum (startTime - t))]) a2
      in
     (case on_limiter (getTimeUntilCanMakeRequestString (other_text env) (clock_of env)) a3 of
        (wait2, a4) \<Rightarrow>
     (case on_limiter (waitUntilCanMakeRequest (clock_of env)) a4 of
        (slept, a5) \<Rightarrow> a5\<lparr>waited := waited a5 @ [slept]\<rparr>))))"

text \<open>
  The rest of the \<open>try\<close> block, run once the limiter has admitted the call. The result is
  the value returned, or the error thrown inside the block, with the client as it is then.
\<close>

definition afterAdmission ::
  "Env \<Rightarrow> jsobj \<Rightarrow> bool \<Rightarrow> bool \<Rightarrow> int \<Rightarrow> Api \<Rightarrow> (thrown + jsval) \<times> Api" where
  "afterAdmission env params skipError skipResponse startTime a =
     (let request = JObj (obj_set (obj_set params ''name'' (JStr (name (app a))))
                            ''ownerid'' (JStr (ownerid (app a))));
          a1 = a\<lparr>sent := sent a @ [request]\<rparr>
      in case transport env (length (sent a)) of
           Fails e \<Rightarrow> (Inl e, a1)
         | Responds status data \<Rightarrow>
            (case Date_now env a1 of (endTime, a2) \<Rightarrow>
             let responseTime = endTime - startTime in
            (case normalize params status data responseTime of
               Inl e \<Rightarrow> (Inl e, a2)
             | Inr d \<Rightarrow>
                let result = JObj (obj_set (spread d) ''time'' (JNum responseTime));
                    a3 = (if \<not> skipResponse
                          then emit RESPONSE
                                 (JObj (obj_set (obj_set (spread d) ''time'' (JNum responseTime))
                                          ''type'' (obj_get params ''type''))) a2
                          else a2);
                    a4 = emit REQUEST
                           (JObj [(''type'', obj_get params ''type''),
                                  (''request'', JObj [(''url'', JStr (baseURL (axiosInstance a))),
                                                      (''params'', JObj params)]),
                                  (''response'', result)]) a3
                in (case get_prop d ''success'' of
                     Inl e \<Rightarrow> (Inl e, a4)
                   | Inr s \<Rightarrow>
                      if s = JBool False then
                        if skipError then (Inr JUndefined, a4)
                        else (case get_prop d ''message'' of
                                Inl e \<Rightarrow> (Inl e, a4)
                              | Inr m \<Rightarrow>
                                  (case emit_error env (errorPayload params m) a4 of
                                     (Inl e, a5) \<Rightarrow> (Inl e, a5)
                                   | (Inr u, a5) \<Rightarrow> (Inr result, a5)))
                      else (Inr result, a4)))))"

text \<open>
  \<open>_makeRequest\<close> calls itself after a wait for admission. The first argument bounds the
  number of calls: \<open>None\<close> is a run that has not returned within the bound. An error thrown
  in the \<open>try\<close> block is caught; when the \<open>catch\<close> block has run, the method returns
  nothing, that is \<open>undefined\<close>, and when the \<open>catch\<close> block throws, the method rejects.
\<close>

definition admitted ::
  "Env \<Rightarrow> jsobj \<Rightarrow> bool \<Rightarrow> bool \<Rightarrow> int \<Rightarrow> Api \<Rightarrow> completion \<times> Api" where
  "admitted env params skipError skipResponse startTime a =
     (case afterAdmission env params skipError skipResponse startTime a of
        (Inr v, a2) \<Rightarrow> (Resolved v, a2)
      | (Inl e, a2) \<Rightarrow>
          (case catch_block env params e a2 of
             (Inl e', a3) \<Rightarrow> (Rejected (Raised e'), a3)
           | (Inr u, a3) \<Rightarrow> (Resolved JUndefined, a3)))"

fun makeRequest ::
  "nat \<Rightarrow> Env \<Rightarrow> jsobj \<Rightarrow> bool \<Rightarrow> bool \<Rightarrow> Api \<Rightarrow> (completion \<times> Api) option" where
  "makeRequest 0 env params skipError skipResponse a = None"
| "makeRequest (Suc fuel) env params skipError skipResponse a =
     (case Date_now env a of (startTime, a0) \<Rightarrow>
     (case on_limiter (hasHitRateLimit (clock_of env)) a0 of (hit, a1) \<Rightarrow>
        if hit
        then makeRequest fuel env params skipError skipResponse (rateLimited env startTime a1)
        else Some (admitted env params skipError skipResponse startTime a1)))"

subsection \<open>Construction and the initialization guard\<close>



definition BASE_URL :: string where
  "BASE_URL = ''https://keyauth.win/api/1.2/''"



text \<open>
  \<open>absent x\<close> is the test \<open>!x\<close> on a field that holds an object: an object is never falsy.
  The four fields tested so are declared with object types and assigned by the constructor.
\<close>

definition absent :: "'a \<Rightarrow> bool" where
  "absent x \<longleftrightarrow> False"

definition init_required :: string where
  "init_required = ''API Initialization Required: Please initialize the API first.''"

definition checkInitialization :: "Env \<Rightarrow> Api \<Rightarrow> (thrown + bool) \<times> Api" where
  "checkInitialization env a =
     (if absent (app a)
        then (Inl (Error ''API client is not properly initialized. Missing 'app' configuration.''), a)
      else if absent (axiosInstance a)
        then (Inl (Error ''API client is not properly initialized. Missing 'axiosInstance' configuration.''), a)
      else if absent (rateLimiter a)
        then (Inl (Error ''API client is not properly initialized. Missing 'rateLimiter' configuration.''), a)
      else if absent (logger a)
        then (Inl (Error ''API client is not properly initialized. Missing 'logger' configuration.''), a)
      else if \<not> initializedClient a
        then (case emit_error env
                     (JObj [(''type'', JStr (event_type INIT)), (''success'', JBool False),
                            (''message'', JStr init_required),
                            (''errorCode'', JStr (error_code K_NI))]) a of
                (Inl e, a1) \<Rightarrow> (Inl e, a1)
              | (Inr u, a1) \<Rightarrow> (Inr True, a1))
      else (Inr True, a))"

subsection \<open>The adapters \<open>init\<close>, \<open>check\<close> and \<open>login\<close>\<close>

definition init :: "nat \<Rightarrow> Env \<Rightarrow> Api \<Rightarrow> (completion \<times> Api) option" where
  "init fuel env a =
     (case Date_now env a of (startTime, a0) \<Rightarrow>
        if initializedClient a0 then
          (case Date_now env a0 of (t, a1) \<Rightarrow>
             Some (Resolved (JObj [(''success'', JBool True),
                                   (''message'', JStr ''Already initialized''),
                                   (''time'', JNum (startTime - t))]), a1))
        else
          (let initParams = [(''type'', JStr (event_type INIT)), (''ver'', JStr (ver (app a0))),
                             (''name'', JStr (name (app a0))),
                             (''ownerid'', JStr (ownerid (app a0)))]
           in case makeRequest fuel env initParams False False a0 of
                None \<Rightarrow> None
              | Some (Rejected r, a1) \<Rightarrow> Some (Rejected r, a1)
              | Some (Resolved response, a1) \<Rightarrow>
                  Some (Resolved (JObj (spread response)),
                        emit INIT (JObj (spread response)) (a1\<lparr>initializedClient := True\<rparr>))))"

text \<open>
  Every adapter starts with the same guard: an error thrown by \<open>_checkInitialization\<close>
  rejects the call, and so does an answer \<open>false\<close>, with the text \<open>init_required\<close>.
\<close>

definition check :: "nat \<Rightarrow> Env \<Rightarrow> string \<Rightarrow> bool \<Rightarrow> Api \<Rightarrow> (completion \<times> Api) option" where
  "check fuel env sessionId skipResponse a =
     (case checkInitialization env a of
        (Inl e, a1) \<Rightarrow> Some (Rejected (Raised e), a1)
      | (Inr ok, a1) \<Rightarrow>
          if \<not> ok then Some (Rejected (Reason (JStr init_required)), a1)
          else
            (let checkParams = [(''type'', JStr (event_type CHECK)), (''sessionid'', JStr sessionId)]
             in case makeRequest fuel env checkParams False skipResponse a1 of
                  None \<Rightarrow> None
                | Some (Rejected r, a2) \<Rightarrow> Some (Rejected r, a2)
                | Some (Resolved response, a2) \<Rightarrow> Some (Resolved (JObj (spread response)), a2)))"

text \<open>\<open>_checkUserLogin\<close> answers with a boolean, or rejects when \<open>check\<close> does.\<close>

definition checkUserLogin :: "nat \<Rightarrow> Env \<Rightarrow> string \<Rightarrow> Api \<Rightarrow> ((rejection + bool) \<times> Api) option" where
  "checkUserLogin fuel env sessionId a =
     (case checkInitialization env a of
        (Inl e, a1) \<Rightarrow> Some (Inl (Raised e), a1)
      | (Inr ok, a1) \<Rightarrow>
          if \<not> ok then Some (Inr False, a1)
          else
            (case check fuel env sessionId True a1 of
               None \<Rightarrow> None
             | Some (Rejected r, a2) \<Rightarrow> Some (Inl r, a2)
             | Some (Resolved v, a2) \<Rightarrow>
                 if truthy (obj_get (spread v) ''success'') then Some (Inr True, a2)
                 else
                   (case emit_error env
                           (JObj [(''type'', JStr (event_type LOG_IN)),
                                  (''success'', JBool False),
                                  (''message'', JStr ''User Not Logged In: Please login before accessing user data.''),
                                  (''errorCode'', JStr (error_code K_NLI))]) a2 of
                      (Inl e, a3) \<Rightarrow> Some (Inl (Raised e), a3)
                    | (Inr u, a3) \<Rightarrow> Some (Inr False, a3))))"

definition var_user_get ::
  "nat \<Rightarrow> Env \<Rightarrow> string \<Rightarrow> string \<Rightarrow> bool \<Rightarrow> bool \<Rightarrow> Api \<Rightarrow> (completion \<times> Api) option" where
  "var_user_get fuel env sessionId varId skipResponse skipError a =
     (case checkInitialization env a of
        (Inl e, a1) \<Rightarrow> Some (Rejected (Raised e), a1)
      | (Inr ok, a1) \<Rightarrow>
          if \<not> ok then Some (Rejected (Reason (JStr init_required)), a1)
          else
            (let getVarParams = [(''type'', JStr (event_type GET_VAR)),
                                 (''sessionid'', JStr sessionId), (''var'', JStr varId)]
             in case makeRequest fuel env getVarParams skipError skipResponse a1 of
                  None \<Rightarrow> None
                | Some (Rejected r, a2) \<Rightarrow> Some (Rejected r, a2)
                | Some (Resolved response, a2) \<Rightarrow> Some (Resolved (JObj (spread response)), a2)))"

text \<open>
  The adapters above resolve with an object literal, so reading the fields of what they
  resolve with (by destructuring) cannot throw.
\<close>

definition metaData_get ::
  "nat \<Rightarrow> Env \<Rightarrow> string \<Rightarrow> bool \<Rightarrow> bool \<Rightarrow> Api \<Rightarrow> (completion \<times> Api) option" where
  "metaData_get fuel env sessionId skipError skipResponse a =
     (case checkInitialization env a of
        (Inl e, a1) \<Rightarrow> Some (Rejected (Raised e), a1)
      | (Inr ok, a1) \<Rightarrow>
          if \<not> ok then Some (Rejected (Reason (JStr init_required)), a1)
          else
            (case checkUserLogin fuel env sessionId a1 of
               None \<Rightarrow> None
             | Some (Inl r, a2) \<Rightarrow> Some (Rejected r, a2)
             | Some (Inr loggedIn, a2) \<Rightarrow>
                 if \<not> loggedIn then Some (Rejected (Reason JUndefined), a2)
                 else
                   (case var_user_get fuel env sessionId ''metaData'' skipResponse skipError a2 of
                      None \<Rightarrow> None
                    | Some (Rejected r, a3) \<Rightarrow> Some (Rejected r, a3)
                    | Some (Resolved v, a3) \<Rightarrow>
                        (let success = obj_get (spread v) ''success'';
                             time = obj_get (spread v) ''time'';
                             response = obj_get (spread v) ''response''
                         in if truthy success then
                              (case JSON_parse env response of
                                 Inl e \<Rightarrow> Some (Rejected (Raised e), a3)
                               | Inr parsed \<Rightarrow>
                                   (let result = JObj [(''message'', JStr ''MetaData Successfully retrieved''),
                                                       (''success'', success), (''time'', time),
                                                       (''metaData'', parsed)]
                                    in Some (Resolved result, emit METADATA result a3)))
                            else
                              Some (Resolved
                                      (JObj [(''message'', JStr ''Failed to retrieve metaData. Try setting metaData first''),
                                             (''success'', success), (''time'', time)]), a3)))))"

text \<open>\<open>optional_get v k\<close> is the optional chain \<open>v?.k\<close>.\<close>

fun optional_get :: "jsval \<Rightarrow> string \<Rightarrow> jsval" where
  "optional_get JUndefined k = JUndefined"
| "optional_get JNull k = JUndefined"
| "optional_get v k = (case get_prop v k of Inl e \<Rightarrow> JUndefined | Inr x \<Rightarrow> x)"

text \<open>What \<open>login\<close> does with the response of its request.\<close>

definition login_response ::
  "nat \<Rightarrow> Env \<Rightarrow> string \<Rightarrow> jsval \<Rightarrow> Api \<Rightarrow> (completion \<times> Api) option" where
  "login_response fuel env sessionId response a =
     (if truthy (optional_get response ''success'') then
        (case (if convertTimes a
               then (case to_local_dates env (obj_get (spread response) ''info'') of
                       Inl e \<Rightarrow> Inl e
                     | Inr i \<Rightarrow> Inr (obj_set (spread response) ''info'' i))
               else Inr (spread response)) of
           Inl e \<Rightarrow> Some (Rejected (Raised e), a)
         | Inr response' \<Rightarrow>
             (case metaData_get fuel env sessionId True True a of
                None \<Rightarrow> None
              | Some (Rejected r, a1) \<Rightarrow> Some (Rejected r, a1)
              | Some (Resolved got, a1) \<Rightarrow>
                  (let result = JObj (obj_set response' ''metaData''
                                        (obj_get (spread got) ''metaData''))
                   in Some (Resolved result,
                            (if truthy (obj_get response' ''info'')
                             then emit LOG_IN result a1 else a1)))))
      else Some (Resolved (JObj (spread response)), a))"

definition login ::
  "nat \<Rightarrow> Env \<Rightarrow> string \<Rightarrow> string \<Rightarrow> string option \<Rightarrow> string \<Rightarrow> Api
     \<Rightarrow> (completion \<times> Api) option" where
  "login fuel env username password hwid sessionId a =
     (case checkInitialization env a of
        (Inl e, a1) \<Rightarrow> Some (Rejected (Raised e), a1)
      | (Inr ok, a1) \<Rightarrow>
          if \<not> ok then Some (Rejected (Reason (JStr init_required)), a1)
          else
            (let loginParams = [(''type'', JStr (event_type LOG_IN)), (''pass'', JStr password),
                                (''sessionid'', JStr sessionId), (''username'', JStr username),
                                (''hwid'', (case hwid of None \<Rightarrow> JUndefined | Some h \<Rightarrow> JStr h))]
             in case makeRequest fuel env loginParams False False a1 of
                  None \<Rightarrow> None
                | Some (Rejected r, a2) \<Rightarrow> Some (Rejected r, a2)
                | Some (Resolved response, a2) \<Rightarrow> login_response fuel env sessionId response a2))"

text \<open>The request that axios receives for given parameters: the application's identity is added.\<close>

definition request_of :: "Api \<Rightarrow> jsobj \<Rightarrow> jsval" where
  "request_of a params =
     JObj (obj_set (obj_set params ''name'' (JStr (name (app a))))
             ''ownerid'' (JStr (ownerid (app a))))"

text \<open>The rules of classification in the words of the specification: the first that applies wins.\<close>

definition classified_kind :: "jsval \<Rightarrow> string \<Rightarrow> ERROR_CODE" where
  "classified_kind sessionid message =
     (if startsWith message ''Session not found.'' \<and> sessionid = JStr [] then K_NSID
      else if startsWith message ''Session not found.'' then K_SK
      else if message = ''Chat channel not found'' then K_NCC
      else if startsWith message ''Keyauth API client'' then K_ICA
      else K_U)"

text \<open>A limiter whose two configuration values are positive.\<close>

definition limiter_ok :: "Api \<Rightarrow> bool" where
  "limiter_ok a \<longleftrightarrow> 0 < refillRate (rateLimiter a) \<and> 0 < maxTokens (rateLimiter a)"

subsection \<open>Notions used in the statements\<close>

declare makeRequest.simps [simp del]

text \<open>
  \<open>rejected_first env a\<close>: the limiter rejects the first call of a dispatch that starts in
  \<open>a\<close>. \<open>admission env a\<close> is the start time and the client with which the part after
  admission runs when at most one wait is needed: after the first call if that is admitted,
  after the wait and the second call otherwise.
\<close>

definition rejected_first :: "Env \<Rightarrow> Api \<Rightarrow> bool" where
  "rejected_first env a = fst (on_limiter (hasHitRateLimit (clock_of env)) (snd (Date_now env a)))"

definition admission :: "Env \<Rightarrow> Api \<Rightarrow> int \<times> Api" where
  "admission env a =
     (case Date_now env a of (startTime, a0) \<Rightarrow>
     (case on_limiter (hasHitRateLimit (clock_of env)) a0 of (hit, a1) \<Rightarrow>
        if hit
        then (case Date_now env (rateLimited env startTime a1) of (startTime', b0) \<Rightarrow>
                (startTime', snd (on_limiter (hasHitRateLimit (clock_of env)) b0)))
        else (startTime, a1)))"

text \<open>The waiting time as text, as the limiter computes it in state \<open>a\<close>.\<close>

definition wait_text :: "Env \<Rightarrow> Api \<Rightarrow> string" where
  "wait_text env a =
     fst (on_limiter (getTimeUntilCanMakeRequestString (other_text env) (clock_of env)) a)"

text \<open>The object that replaces the payload \<open>"KeyAuth_Invalid"\<close>.\<close>

definition sentinel_result :: "int \<Rightarrow> jsval" where
  "sentinel_result t = JObj [(''success'', JBool False),
                           (''message'', JStr ''Keyauth API client not set up correctly!''),
                           (''time'', JNum t)]"

text \<open>\<open>listening a\<close>: a listener for \<open>"error"\<close> is registered with \<open>on\<close>, so that it stays.\<close>

definition listening :: "Api \<Rightarrow> bool" where
  "listening a \<longleftrightarrow> (''error'', False) \<in> set (listeners a)"




subsection \<open>A concrete client and world\<close>

text \<open>
  The client that the constructor builds with default options at the first reading of a
  clock that advances 10 ms per reading, with a given token count, and a world in which
  every request has the same outcome. In that world \<open>{...}\<close> stands for the text of an
  inspected value.
\<close>

definition demo_app :: App where
  "demo_app = \<lparr>name = ''demo'', ver = ''1.0'', ownerid = ''owner01''\<rparr>"

definition demo_env :: "http_result \<Rightarrow> Env" where
  "demo_env r = \<lparr>clock_of = steady 0 10, transport = (\<lambda>n. r), other_text = (\<lambda>x. ''?''),
                 inspect = (\<lambda>v. ''{...}''), JSON_parse = (\<lambda>v. Inr v), to_local_dates = (\<lambda>v. Inr v)\<rparr>"

definition demo_client :: "rat \<Rightarrow> Api" where
  "demo_client t =
     \<lparr>app = demo_app, axiosInstance = \<lparr>baseURL = BASE_URL\<rparr>,
      logger = \<lparr>silent = True, level = ''error''\<rparr>,
      rateLimiter = \<lparr>tokens = t, lastRefillTime = 0, refillRate = 5000, maxTokens = 10\<rparr>,
      initializedClient = False, convertTimes = False,
      listeners = [], emitted = [], sent = [], waited = [], readings = 1\<rparr>"

text \<open>
  What every limiter call keeps when the capacity is a whole number: whole token counts in
  range, a positive interval, and a last refill that is not after the next reading.
\<close>

definition rl_inv :: "clock \<Rightarrow> RateLimiter \<times> nat \<Rightarrow> bool" where
  "rl_inv clk s \<longleftrightarrow>
     whole (tokens (fst s)) \<and> whole (maxTokens (fst s)) \<and> tokens_in_range (fst s)
     \<and> 0 < refillRate (fst s) \<and> lastRefillTime (fst s) \<le> clk (snd s)"

section \<open>Properties of the rate limiter\<close>

lemma two_to_pos: "0 < two_to e"
  by (simp add: two_to_def)

lemma round_even_nonneg: "0 \<le> m \<Longrightarrow> 0 \<le> round_even m"
  by (simp add: round_even_def Let_def)

lemma to_double_0: "to_double 0 = 0"
  by (simp add: to_double_def)

lemma to_double_nonneg:
  assumes "0 \<le> x"
  shows "0 \<le> to_double x"
proof (cases "x = 0")
  case True
  then show ?thesis by (simp add: to_double_def)
next
  case False
  define ulp where "ulp = two_to (max (exponent_of x) (- 1022) - 52)"
  have u: "0 < ulp" by (simp add: ulp_def two_to_pos)
  have "0 \<le> \<bar>x\<bar> / ulp" using u by simp
  then have "0 \<le> round_even (\<bar>x\<bar> / ulp)" by (rule round_even_nonneg)
  then have "0 \<le> of_int (round_even (\<bar>x\<bar> / ulp)) * ulp"
    using u by (simp add: mult_nonneg_nonneg)
  moreover have "sgn x = 1" using assms False by (simp add: sgn_if)
  ultimately show ?thesis
    using False by (simp add: to_double_def Let_def ulp_def)
qed

lemma tokensToAdd_nonneg:
  assumes "0 < r" and "0 \<le> e"
  shows "(0::rat) \<le> of_int \<lfloor>to_double (of_int e / r)\<rfloor>"
proof -
  have "0 \<le> of_int e / r" using assms by simp
  then have "0 \<le> to_double (of_int e / r)" by (rule to_double_nonneg)
  then show ?thesis by simp
qed

text \<open>Some quotients, evaluated: the double nearest to each and its integer part.\<close>

lemma evaluated_doubles:
  "to_double 1000 = 1000"
  "to_double (1 / 10) = 3602879701896397 / 36028797018963968"
  "to_double (3602879701896397 / 36028797018963968) = 3602879701896397 / 36028797018963968"
  "to_double (1 / (3602879701896397 / 36028797018963968)) = 10"
  "\<lfloor>(1::rat) / (3602879701896397 / 36028797018963968)\<rfloor> = 9"
  "\<lfloor>to_double (5 / 2)\<rfloor> = 2"
  "\<lfloor>to_double (3 / 10)\<rfloor> = 0"
  by code_simp+

lemma refill_eq:
  "refill clk (rl, k) =
     (rl\<lparr>tokens := min (tokens rl
                        + of_int \<lfloor>to_double (of_int (clk k - lastRefillTime rl) / refillRate rl)\<rfloor>)
                      (maxTokens rl),
         lastRefillTime := clk k\<rparr>, Suc k)"
  by (simp add: refill_def Let_def)

lemma mono_steady: "0 \<le> d \<Longrightarrow> mono (steady t0 d)"
  by (simp add: mono_def steady_def mult_left_mono)

text \<open>
  Claim C1 as stated fails on the quotient. The interval is the number that the literal
  \<open>0.1\<close> denotes, the bucket is empty and one millisecond has passed. The exact quotient is
  just below 10 and its integer part is 9, so the claim leaves \<open>9 - 1 = 8\<close> tokens. The
  division of the language returns the nearest double, which is 10: \<open>hasHitRateLimit\<close> adds
  ten tokens and leaves 9.
\<close>

theorem exact_quotient_counterexample:
  "to_double (1 / 10) = 3602879701896397 / 36028797018963968
   \<and> hasHitRateLimit (steady 1 0)
       (\<lparr>tokens = 0, lastRefillTime = 0,
         refillRate = 3602879701896397 / 36028797018963968, maxTokens = 100\<rparr>, 0)
     = (False, \<lparr>tokens = 9, lastRefillTime = 1,
                refillRate = 3602879701896397 / 36028797018963968, maxTokens = 100\<rparr>, 1)
   \<and> min 100 (0 + of_int \<lfloor>of_int (steady 1 0 0 - 0) / (3602879701896397 / 36028797018963968 :: rat)\<rfloor>) - 1
     = (8::rat)"
  by code_simp

text \<open>
  Claim C1, as amended. In a state with whole \<open>0 \<le> tokens \<le> maxTokens \<le> 2^53\<close> and an interval
  \<open>refillRate\<close> that is a positive double, at a reading \<open>now\<close> of the clock that is not before
  the last refill, \<open>hasHitRateLimit\<close> first sets \<open>tokens\<close> to
  \<open>min maxTokens (tokens + \<lfloor>q\<rfloor>)\<close>, where \<open>q\<close> is the double nearest to
  \<open>(now - lastRefillTime) / refillRate\<close>, and \<open>lastRefillTime\<close> to \<open>now\<close>, whatever was added.
  If that token count is positive it takes exactly one token and admits the call (the answer
  \<open>False\<close>); otherwise it rejects the call (the answer \<open>True\<close>) and the token count is \<open>0\<close>.
  The statement is for whole token counts up to \<open>2^53\<close>: there the sum and the decrement of
  the method are exact in doubles, as they are here.
\<close>

theorem hasHitRateLimit_refills_then_admits:
  assumes "whole (tokens rl)" and "whole (maxTokens rl)"
    and "0 \<le> tokens rl" and "tokens rl \<le> maxTokens rl" and "maxTokens rl \<le> 2 ^ 53"
    and "0 < refillRate rl" and "is_double (refillRate rl)"
    and "lastRefillTime rl \<le> clk k"
  shows "hasHitRateLimit clk (rl, k) =
     (let refilled = min (maxTokens rl)
            (tokens rl + of_int \<lfloor>to_double (of_int (clk k - lastRefillTime rl) / refillRate rl)\<rfloor>)
      in if refilled > 0
         then (False, rl\<lparr>tokens := refilled - 1, lastRefillTime := clk k\<rparr>, Suc k)
         else (True, rl\<lparr>tokens := 0, lastRefillTime := clk k\<rparr>, Suc k))"
proof -
  have "(0::rat) \<le> of_int \<lfloor>to_double (of_int (clk k - lastRefillTime rl) / refillRate rl)\<rfloor>"
    using assms(6,8) by (intro tokensToAdd_nonneg) simp_all
  then have nonneg: "0 \<le> min (maxTokens rl)
            (tokens rl + of_int \<lfloor>to_double (of_int (clk k - lastRefillTime rl) / refillRate rl)\<rfloor>)"
    using assms(3,4) by simp
  show ?thesis
    using nonneg by (auto simp add: hasHitRateLimit_def refill_eq Let_def min.commute)
qed

text \<open>
  The scenario of the specification: capacity 2, interval 1000, no token left, and a
  reading 2500 ms after the last refill: two tokens come back and one is taken.
\<close>

theorem hasHitRateLimit_refills_then_admits_witness:
  "whole 0 \<and> whole 2 \<and> is_double 1000
   \<and> hasHitRateLimit (steady 2500 0)
       (\<lparr>tokens = 0, lastRefillTime = 0, refillRate = 1000, maxTokens = 2\<rparr>, 3)
     = (False, \<lparr>tokens = 1, lastRefillTime = 2500, refillRate = 1000, maxTokens = 2\<rparr>, 4)"
proof -
  have w: "whole 0" "whole 2" by (simp_all add: whole_def)
  have d: "is_double 1000" by (simp add: is_double_def evaluated_doubles)
  have "hasHitRateLimit (steady 2500 0)
       (\<lparr>tokens = 0, lastRefillTime = 0, refillRate = 1000, maxTokens = 2\<rparr>, 3)
     = (False, \<lparr>tokens = 1, lastRefillTime = 2500, refillRate = 1000, maxTokens = 2\<rparr>, 4)"
    using hasHitRateLimit_refills_then_admits
      [of "\<lparr>tokens = 0, lastRefillTime = 0, refillRate = 1000, maxTokens = 2\<rparr>" "steady 2500 0" 3]
      w d
    by (simp add: steady_def evaluated_doubles)
  with w d show ?thesis by simp
qed

text \<open>
  Claim C7. When \<open>waitUntilCanMakeRequest\<close> is over, \<open>tokens\<close> equals \<open>maxTokens\<close>, whatever
  the token count was before and whatever the refill inside the method added; the capacity
  itself is unchanged.
\<close>

theorem waitUntilCanMakeRequest_fills_bucket:
  "tokens (fst (snd (waitUntilCanMakeRequest clk (rl, k)))) = maxTokens rl
   \<and> maxTokens (fst (snd (waitUntilCanMakeRequest clk (rl, k)))) = maxTokens rl"
  by (simp add: waitUntilCanMakeRequest_def getTimeUntilCanMakeRequest_def refill_eq Let_def
           split: prod.splits)

text \<open>
  Claim C8. \<open>getTimeUntilCanMakeRequest\<close> first refills, at the reading \<open>clk k\<close>, with the
  integer part of the quotient as the division of doubles gives it. If a token is then
  available it answers \<open>0\<close>. Otherwise it answers
  \<open>max 0 (refillRate - elapsed)\<close>, where \<open>elapsed\<close> is the time from the refill just made to
  the next reading of the clock. With a positive \<open>refillRate\<close> and a clock that does not run
  backwards between the two readings, the answer lies between \<open>0\<close> and \<open>refillRate\<close>.
\<close>

theorem getTimeUntilCanMakeRequest_value:
  assumes "0 < refillRate rl" and "clk k \<le> clk (Suc k)"
  shows "fst (getTimeUntilCanMakeRequest clk (rl, k)) =
           (if min (tokens rl
                     + of_int \<lfloor>to_double (of_int (clk k - lastRefillTime rl) / refillRate rl)\<rfloor>)
                   (maxTokens rl) > 0
            then 0
            else max 0 (refillRate rl - of_int (clk (Suc k) - clk k)))
         \<and> 0 \<le> fst (getTimeUntilCanMakeRequest clk (rl, k))
         \<and> fst (getTimeUntilCanMakeRequest clk (rl, k)) \<le> refillRate rl"
  using assms by (auto simp add: getTimeUntilCanMakeRequest_def refill_eq Let_def)

theorem getTimeUntilCanMakeRequest_value_witness:
  "fst (getTimeUntilCanMakeRequest (steady 0 300)
          (\<lparr>tokens = 0, lastRefillTime = 0, refillRate = 1000, maxTokens = 2\<rparr>, 1)) = 700"
  using getTimeUntilCanMakeRequest_value
    [of "\<lparr>tokens = 0, lastRefillTime = 0, refillRate = 1000, maxTokens = 2\<rparr>" "steady 0 300" 1]
  by (simp add: steady_def evaluated_doubles)

subsection \<open>The range of the token count\<close>

lemma whole_of_int: "whole (of_int n)"
  by (simp add: whole_def)

lemma whole_add: "whole x \<Longrightarrow> whole (x + of_int n)"
  unfolding whole_def by (metis floor_of_int of_int_add)

lemma whole_min: "whole x \<Longrightarrow> whole y \<Longrightarrow> whole (min x y)"
  by (simp add: min_def)

lemma whole_pred: "whole x \<Longrightarrow> whole (x - 1)"
  unfolding whole_def by (metis floor_of_int of_int_diff of_int_1)

lemma whole_pos_ge_1: "whole x \<Longrightarrow> 0 < x \<Longrightarrow> 1 \<le> x"
  unfolding whole_def
  by (metis floor_less_iff int_one_le_iff_zero_less of_int_0 of_int_1 of_int_le_iff linorder_not_less zero_less_floor)

lemma refill_inv:
  assumes "mono clk" "rl_inv clk s"
  shows "rl_inv clk (refill clk s)"
proof -
  obtain rl k where s: "s = (rl, k)" by (cases s)
  let ?n = "\<lfloor>to_double (of_int (clk k - lastRefillTime rl) / refillRate rl)\<rfloor>"
  from assms(2) have w: "whole (tokens rl)" "whole (maxTokens rl)"
    and r: "0 \<le> tokens rl" "tokens rl \<le> maxTokens rl"
    and p: "0 < refillRate rl" and t: "lastRefillTime rl \<le> clk k"
    by (simp_all add: rl_inv_def tokens_in_range_def s)
  have n: "(0::rat) \<le> of_int ?n"
    using p t by (intro tokensToAdd_nonneg) simp_all
  have "whole (min (tokens rl + of_int ?n) (maxTokens rl))"
    using w by (intro whole_min whole_add)
  moreover have "0 \<le> min (tokens rl + of_int ?n) (maxTokens rl)"
    using n r by simp
  moreover have "clk k \<le> clk (Suc k)"
    using assms(1) by (simp add: monoD)
  ultimately show ?thesis
    using w p by (simp add: s refill_eq rl_inv_def tokens_in_range_def)
qed

lemma hasHitRateLimit_inv:
  assumes "mono clk" "rl_inv clk s"
  shows "rl_inv clk (snd (hasHitRateLimit clk s))"
proof -
  have i: "rl_inv clk (refill clk s)" using assms by (rule refill_inv)
  obtain rl k where f: "refill clk s = (rl, k)" by (cases "refill clk s")
  show ?thesis
  proof (cases "tokens rl > 0")
    case True
    have "whole (tokens rl)" using i by (simp add: f rl_inv_def)
    then have "1 \<le> tokens rl" "whole (tokens rl - 1)"
      using True by (simp_all add: whole_pos_ge_1 whole_pred)
    then show ?thesis
      using i True by (simp add: hasHitRateLimit_def f rl_inv_def tokens_in_range_def)
  next
    case False
    then show ?thesis using i by (simp add: hasHitRateLimit_def f)
  qed
qed

lemma getTimeUntilCanMakeRequest_inv:
  assumes "mono clk" "rl_inv clk s"
  shows "rl_inv clk (snd (getTimeUntilCanMakeRequest clk s))"
proof -
  have i: "rl_inv clk (refill clk s)" using assms by (rule refill_inv)
  obtain rl k where f: "refill clk s = (rl, k)" by (cases "refill clk s")
  have "clk k \<le> clk (Suc k)" using assms(1) by (simp add: monoD)
  then show ?thesis
    using i by (simp add: getTimeUntilCanMakeRequest_def f rl_inv_def Let_def)
qed

lemma waitUntilCanMakeRequest_inv:
  assumes "mono clk" "rl_inv clk s"
  shows "rl_inv clk (snd (waitUntilCanMakeRequest clk s))"
proof -
  have i: "rl_inv clk (snd (getTimeUntilCanMakeRequest clk s))"
    using assms by (rule getTimeUntilCanMakeRequest_inv)
  obtain t rl k where f: "getTimeUntilCanMakeRequest clk s = (t, rl, k)"
    by (cases "getTimeUntilCanMakeRequest clk s")
  have "0 \<le> maxTokens rl"
    using i by (simp add: f rl_inv_def tokens_in_range_def)
  then show ?thesis
    using i by (simp add: waitUntilCanMakeRequest_def f rl_inv_def tokens_in_range_def)
qed

lemma rl_step_inv: "mono clk \<Longrightarrow> rl_inv clk s \<Longrightarrow> rl_inv clk (rl_step clk c s)"
  by (cases c) (simp_all add: hasHitRateLimit_inv getTimeUntilCanMakeRequest_inv waitUntilCanMakeRequest_inv)

lemma rl_run_inv: "mono clk \<Longrightarrow> rl_inv clk s \<Longrightarrow> rl_inv clk (rl_run clk cs s)"
  by (induction cs arbitrary: s) (simp_all add: rl_step_inv)

lemma new_RateLimiter_inv:
  assumes "mono clk" "new_RateLimiter clk m r k = Inr s" "whole m"
  shows "rl_inv clk s"
proof -
  have "clk k \<le> clk (Suc k)" using assms(1) by (simp add: monoD)
  then show ?thesis
    using assms(2,3)
    by (auto simp add: new_RateLimiter_def rl_inv_def tokens_in_range_def split: if_splits)
qed

text \<open>
  Claim C4, as amended. For a limiter constructed with a capacity that is a whole number,
  \<open>0 \<le> tokens \<le> maxTokens\<close> holds after construction and after every sequence of calls of
  \<open>hasHitRateLimit\<close>, \<open>getTimeUntilCanMakeRequest\<close> and \<open>waitUntilCanMakeRequest\<close>, on a
  clock that never runs backwards.
\<close>

theorem tokens_in_range_whole_capacity:
  assumes "mono clk" and "new_RateLimiter clk m r k = Inr s" and "whole m"
  shows "tokens_in_range (fst s) \<and> tokens_in_range (fst (rl_run clk cs s))"
proof -
  have "rl_inv clk s" using assms by (rule new_RateLimiter_inv)
  then have "rl_inv clk (rl_run clk cs s)" using assms(1) by (simp add: rl_run_inv)
  with \<open>rl_inv clk s\<close> show ?thesis by (simp add: rl_inv_def)
qed

theorem tokens_in_range_whole_capacity_witness:
  "mono (steady 0 1000) \<and> whole 2
   \<and> new_RateLimiter (steady 0 1000) 2 1000 0
       = Inr (\<lparr>tokens = 2, lastRefillTime = 0, refillRate = 1000, maxTokens = 2\<rparr>, 1)
   \<and> tokens_in_range (fst (rl_run (steady 0 1000)
        [HasHitRateLimit, HasHitRateLimit, HasHitRateLimit, WaitUntilCanMakeRequest, GetTimeUntilCanMakeRequest]
        (\<lparr>tokens = 2, lastRefillTime = 0, refillRate = 1000, maxTokens = 2\<rparr>, 1)))"
proof -
  have m: "mono (steady 0 1000)" by (simp add: mono_steady)
  have w: "whole 2" by (simp add: whole_def)
  have n: "new_RateLimiter (steady 0 1000) 2 1000 0
       = Inr (\<lparr>tokens = 2, lastRefillTime = 0, refillRate = 1000, maxTokens = 2\<rparr>, 1)"
    by (simp add: new_RateLimiter_def steady_def)
  have "tokens_in_range (fst (rl_run (steady 0 1000)
        [HasHitRateLimit, HasHitRateLimit, HasHitRateLimit, WaitUntilCanMakeRequest, GetTimeUntilCanMakeRequest]
        (\<lparr>tokens = 2, lastRefillTime = 0, refillRate = 1000, maxTokens = 2\<rparr>, 1)))"
    using tokens_in_range_whole_capacity [OF m n w] by (rule conjunct2)
  with m w n show ?thesis by blast
qed

text \<open>
  Claim C4 as stated fails for a capacity that is not a whole number: the constructor
  accepts \<open>maxTokens = 0.5\<close>, and the first admitted call leaves \<open>tokens = -0.5\<close>.
\<close>

theorem tokens_in_range_counterexample:
  "new_RateLimiter (steady 0 0) (1/2) 5000 0
       = Inr (\<lparr>tokens = 1/2, lastRefillTime = 0, refillRate = 5000, maxTokens = 1/2\<rparr>, 1)
   \<and> rl_run (steady 0 0) [HasHitRateLimit]
        (\<lparr>tokens = 1/2, lastRefillTime = 0, refillRate = 5000, maxTokens = 1/2\<rparr>, 1)
       = (\<lparr>tokens = - (1/2), lastRefillTime = 0, refillRate = 5000, maxTokens = 1/2\<rparr>, 2)
   \<and> \<not> tokens_in_range (fst (rl_run (steady 0 0) [HasHitRateLimit]
        (\<lparr>tokens = 1/2, lastRefillTime = 0, refillRate = 5000, maxTokens = 1/2\<rparr>, 1)))"
  by (simp add: new_RateLimiter_def steady_def hasHitRateLimit_def refill_def tokens_in_range_def Let_def
        to_double_0)

section \<open>Properties of the dispatcher\<close>

subsection \<open>What the limiter calls keep\<close>

lemma refill_cfg:
  "refillRate (fst (refill clk s)) = refillRate (fst s)"
  "maxTokens (fst (refill clk s)) = maxTokens (fst s)"
  "lastRefillTime (fst (refill clk s)) = clk (snd s)"
  "snd (refill clk s) = Suc (snd s)"
  by (cases s, simp add: refill_eq)+

lemma hasHitRateLimit_cfg:
  "refillRate (fst (snd (hasHitRateLimit clk s))) = refillRate (fst s)"
  "maxTokens (fst (snd (hasHitRateLimit clk s))) = maxTokens (fst s)"
  by (cases s, simp add: hasHitRateLimit_def refill_eq)+

lemma getTime_cfg:
  "refillRate (fst (snd (getTimeUntilCanMakeRequest clk s))) = refillRate (fst s)"
  "maxTokens (fst (snd (getTimeUntilCanMakeRequest clk s))) = maxTokens (fst s)"
  by (cases s, simp add: getTimeUntilCanMakeRequest_def refill_eq Let_def)+

lemma getTimeString_state:
  "snd (getTimeUntilCanMakeRequestString other clk s) = snd (getTimeUntilCanMakeRequest clk s)"
  by (simp add: getTimeUntilCanMakeRequestString_def split: prod.splits)

lemma wait_then_admit:
  assumes "mono clk" and "0 < refillRate rl" and "0 < maxTokens rl"
    and "snd (snd (waitUntilCanMakeRequest clk (rl, k))) \<le> j"
  shows "fst (hasHitRateLimit clk (fst (snd (waitUntilCanMakeRequest clk (rl, k))), j)) = False"
proof -
  let ?w = "waitUntilCanMakeRequest clk (rl, k)"
  have k: "Suc k \<le> snd (snd ?w)"
    by (simp add: waitUntilCanMakeRequest_def getTimeUntilCanMakeRequest_def refill_eq Let_def)
  have f: "tokens (fst (snd ?w)) = maxTokens rl" "maxTokens (fst (snd ?w)) = maxTokens rl"
    "refillRate (fst (snd ?w)) = refillRate rl" "lastRefillTime (fst (snd ?w)) = clk k"
    by (simp_all add: waitUntilCanMakeRequest_def getTimeUntilCanMakeRequest_def refill_eq Let_def)
  have "clk k \<le> clk j" using assms(1,4) k by (simp add: monoD)
  then have "(0::rat) \<le> of_int \<lfloor>to_double (of_int (clk j - clk k) / refillRate rl)\<rfloor>"
    using assms(2) by (intro tokensToAdd_nonneg) simp_all
  then have "min (maxTokens rl + of_int \<lfloor>to_double (of_int (clk j - clk k) / refillRate rl)\<rfloor>)
                 (maxTokens rl) = maxTokens rl" by simp
  then show ?thesis
    using assms(3) f by (simp add: hasHitRateLimit_def refill_eq)
qed

subsection \<open>Fields of the client through the steps of a dispatch\<close>

lemma on_limiter_fields:
  "fst (on_limiter f a) = fst (f (rateLimiter a, readings a))"
  "rateLimiter (snd (on_limiter f a)) = fst (snd (f (rateLimiter a, readings a)))"
  "readings (snd (on_limiter f a)) = snd (snd (f (rateLimiter a, readings a)))"
  "sent (snd (on_limiter f a)) = sent a"
  "emitted (snd (on_limiter f a)) = emitted a"
  "waited (snd (on_limiter f a)) = waited a"
  "app (snd (on_limiter f a)) = app a"
  "axiosInstance (snd (on_limiter f a)) = axiosInstance a"
  "logger (snd (on_limiter f a)) = logger a"
  "initializedClient (snd (on_limiter f a)) = initializedClient a"
  "convertTimes (snd (on_limiter f a)) = convertTimes a"
  "listeners (snd (on_limiter f a)) = listeners a"
  by (simp_all add: on_limiter_def split: prod.splits)

lemma Date_now_fields:
  "fst (Date_now env a) = clock_of env (readings a)"
  "rateLimiter (snd (Date_now env a)) = rateLimiter a"
  "readings (snd (Date_now env a)) = Suc (readings a)"
  "sent (snd (Date_now env a)) = sent a"
  "emitted (snd (Date_now env a)) = emitted a"
  "waited (snd (Date_now env a)) = waited a"
  "app (snd (Date_now env a)) = app a"
  "axiosInstance (snd (Date_now env a)) = axiosInstance a"
  "logger (snd (Date_now env a)) = logger a"
  "initializedClient (snd (Date_now env a)) = initializedClient a"
  "convertTimes (snd (Date_now env a)) = convertTimes a"
  "listeners (snd (Date_now env a)) = listeners a"
  by (simp_all add: Date_now_def)

lemma emit_fields:
  "emitted (emit e v a) = emitted a @ [(event_type e, v)]"
  "rateLimiter (emit e v a) = rateLimiter a"
  "readings (emit e v a) = readings a"
  "sent (emit e v a) = sent a"
  "waited (emit e v a) = waited a"
  "app (emit e v a) = app a"
  "axiosInstance (emit e v a) = axiosInstance a"
  "logger (emit e v a) = logger a"
  "initializedClient (emit e v a) = initializedClient a"
  "convertTimes (emit e v a) = convertTimes a"
  "listening (emit e v a) = listening a"
  by (auto simp add: emit_def listening_def)

lemma listening_fields:
  "listening (snd (on_limiter f a)) = listening a"
  "listening (snd (Date_now env a)) = listening a"
  "listening (a\<lparr>waited := w\<rparr>) = listening a"
  "listening (a\<lparr>sent := s\<rparr>) = listening a"
  by (simp_all add: listening_def on_limiter_def Date_now_def split: prod.splits)

lemma emit_error_fields:
  "snd (emit_error env v a) = emit ERROR v a"
  "fst (emit_error env v a) = (if heard ERROR a then Inr () else Inl (unhandled_error env v))"
  by (simp_all add: emit_error_def)

lemma listening_heard: "listening a \<Longrightarrow> heard ERROR a"
  by (force simp add: listening_def heard_def)


lemma on_error_listening: "listening (on ''error'' a)"
  by (simp add: listening_def on_def)

lemmas api_fields = on_limiter_fields Date_now_fields emit_fields listening_fields

subsection \<open>Evaluating the concrete client\<close>

lemmas run_defs =
  makeRequest.simps admitted_def afterAdmission_def catch_block_def rateLimited_def
  on_limiter_def Date_now_def emit_def emit_error_def heard_def unhandled_error_def on_def
  hasHitRateLimit_def refill_def
  getTimeUntilCanMakeRequest_def getTimeUntilCanMakeRequestString_def
  waitUntilCanMakeRequest_def normalize_def errorPayload_def error_event_def obj_get_def
  startsWith_def Let_def steady_def demo_env_def demo_client_def demo_app_def BASE_URL_def

lemma small_floors:
  "\<lfloor>to_double (1 / 250)\<rfloor> = 0" "\<lfloor>to_double (1 / 500)\<rfloor> = 0"
  "\<lfloor>to_double (499 / 100)\<rfloor> = 4"
  by code_simp+

lemma text_of_4: "number_text other 4 = ''4''"
  by (simp add: number_text_def whole_def string_of_int_def string_of_nat.simps)

lemma demo_mono: "mono (clock_of (demo_env r))"
  by (simp add: demo_env_def mono_steady)

lemma demo_ok: "limiter_ok (demo_client t)"
  by (simp add: limiter_ok_def demo_client_def)


subsection \<open>The dispatch returns after at most one wait\<close>

lemma rateLimited_frame:
  "sent (rateLimited env st a) = sent a"
  "app (rateLimited env st a) = app a"
  "axiosInstance (rateLimited env st a) = axiosInstance a"
  "logger (rateLimited env st a) = logger a"
  "initializedClient (rateLimited env st a) = initializedClient a"
  "convertTimes (rateLimited env st a) = convertTimes a"
  "refillRate (rateLimiter (rateLimited env st a)) = refillRate (rateLimiter a)"
  "maxTokens (rateLimiter (rateLimited env st a)) = maxTokens (rateLimiter a)"
  "length (waited (rateLimited env st a)) = Suc (length (waited a))"
  "listening (rateLimited env st a) = listening a"
  by (simp_all add: rateLimited_def case_prod_beta Let_def api_fields getTimeString_state
        getTime_cfg waitUntilCanMakeRequest_def)

lemma rateLimited_emitted_eq:
  "emitted (rateLimited env st a) = emitted a @
     [(''response'', JObj [(''type'', JStr ''ratelimit''), (''success'', JBool False),
        (''message'', JStr (''Client Api rate limit hit please wait '' @ wait_text env a)),
        (''time'', JNum (st - clock_of env (readings (snd (on_limiter
            (getTimeUntilCanMakeRequestString (other_text env) (clock_of env)) a)))))])]"
  by (simp add: rateLimited_def case_prod_beta Let_def api_fields wait_text_def)

lemma rateLimited_emitted:
  "\<exists>t. emitted (rateLimited env st a) = emitted a @
     [(''response'', JObj [(''type'', JStr ''ratelimit''), (''success'', JBool False),
        (''message'', JStr (''Client Api rate limit hit please wait '' @ wait_text env a)),
        (''time'', JNum t)])]"
  by (simp add: rateLimited_emitted_eq)

lemma second_try_admitted:
  assumes "mono (clock_of env)" and "limiter_ok a"
  shows "fst (on_limiter (hasHitRateLimit (clock_of env))
               (snd (Date_now env (rateLimited env st a)))) = False"
proof -
  let ?clk = "clock_of env"
  let ?gs = "getTimeUntilCanMakeRequestString (other_text env) ?clk"
  define a4 where "a4 = snd (on_limiter ?gs
      (emit RESPONSE
         (JObj [(''type'', JStr (event_type RATE_LIMIT)), (''success'', JBool False),
                (''message'', JStr (''Client Api rate limit hit please wait '' @ fst (on_limiter ?gs a))),
                (''time'', JNum (st - fst (Date_now env (snd (on_limiter ?gs a)))))])
         (snd (Date_now env (snd (on_limiter ?gs a))))))"
  let ?w = "waitUntilCanMakeRequest ?clk (rateLimiter a4, readings a4)"
  have ok: "0 < refillRate (rateLimiter a4)" "0 < maxTokens (rateLimiter a4)"
    using assms(2)
    by (simp_all add: a4_def limiter_ok_def api_fields getTimeString_state getTime_cfg)
  have r: "rateLimited env st a = (snd (on_limiter (waitUntilCanMakeRequest ?clk) a4))
             \<lparr>waited := waited (snd (on_limiter (waitUntilCanMakeRequest ?clk) a4))
                         @ [fst (on_limiter (waitUntilCanMakeRequest ?clk) a4)]\<rparr>"
    by (simp add: rateLimited_def case_prod_beta Let_def a4_def)
  have "fst (hasHitRateLimit ?clk (fst (snd ?w), Suc (snd (snd ?w)))) = False"
    using assms(1) ok by (intro wait_then_admit) simp_all
  then show ?thesis
    by (simp add: r api_fields)
qed

lemma afterAdmission_frame:
  "sent (snd (afterAdmission env params se sr st a)) = sent a @ [request_of a params]"
  "app (snd (afterAdmission env params se sr st a)) = app a"
  "axiosInstance (snd (afterAdmission env params se sr st a)) = axiosInstance a"
  "logger (snd (afterAdmission env params se sr st a)) = logger a"
  "initializedClient (snd (afterAdmission env params se sr st a)) = initializedClient a"
  "convertTimes (snd (afterAdmission env params se sr st a)) = convertTimes a"
  "rateLimiter (snd (afterAdmission env params se sr st a)) = rateLimiter a"
  "waited (snd (afterAdmission env params se sr st a)) = waited a"
  "listening (snd (afterAdmission env params se sr st a)) = listening a"
  by (auto simp add: afterAdmission_def request_of_def Let_def Date_now_def emit_def
        emit_error_def listening_def split: http_result.splits sum.splits prod.splits)

lemma afterAdmission_emitted:
  "\<exists>es. emitted (snd (afterAdmission env params se sr st a)) = emitted a @ es"
  by (simp add: afterAdmission_def Let_def Date_now_def emit_def emit_error_def
        split: http_result.splits sum.splits prod.splits)

lemma catch_block_fields:
  "emitted (snd (catch_block env params e a))
     = emitted a @ [(''error'', error_event params (JStr (message_of e)) K_U)]"
  "sent (snd (catch_block env params e a)) = sent a"
  "app (snd (catch_block env params e a)) = app a"
  "axiosInstance (snd (catch_block env params e a)) = axiosInstance a"
  "logger (snd (catch_block env params e a)) = logger a"
  "initializedClient (snd (catch_block env params e a)) = initializedClient a"
  "convertTimes (snd (catch_block env params e a)) = convertTimes a"
  "rateLimiter (snd (catch_block env params e a)) = rateLimiter a"
  "waited (snd (catch_block env params e a)) = waited a"
  "listening (snd (catch_block env params e a)) = listening a"
  by (cases e; simp add: catch_block_def emit_error_fields emit_fields)+

lemma catch_block_result:
  "fst (catch_block env params e a) =
     (if heard ERROR a then Inr ()
      else Inl (unhandled_error env (error_event params (JStr (message_of e)) K_U)))"
  by (cases e) (simp_all add: catch_block_def emit_error_fields)

lemma admitted_eq:
  "admitted env params se sr st a =
     (case fst (afterAdmission env params se sr st a) of
        Inr v \<Rightarrow> (Resolved v, snd (afterAdmission env params se sr st a))
      | Inl e \<Rightarrow>
          ((case fst (catch_block env params e (snd (afterAdmission env params se sr st a))) of
              Inl e' \<Rightarrow> Rejected (Raised e') | Inr u \<Rightarrow> Resolved JUndefined),
           snd (catch_block env params e (snd (afterAdmission env params se sr st a)))))"
  by (simp add: admitted_def split: prod.splits sum.splits)

lemma admitted_frame:
  "sent (snd (admitted env params se sr st a)) = sent a @ [request_of a params]"
  "app (snd (admitted env params se sr st a)) = app a"
  "axiosInstance (snd (admitted env params se sr st a)) = axiosInstance a"
  "logger (snd (admitted env params se sr st a)) = logger a"
  "initializedClient (snd (admitted env params se sr st a)) = initializedClient a"
  "convertTimes (snd (admitted env params se sr st a)) = convertTimes a"
  "rateLimiter (snd (admitted env params se sr st a)) = rateLimiter a"
  "waited (snd (admitted env params se sr st a)) = waited a"
  "listening (snd (admitted env params se sr st a)) = listening a"
  by (simp_all add: admitted_eq catch_block_fields afterAdmission_frame split: sum.splits)

lemma admitted_emitted:
  "\<exists>es. emitted (snd (admitted env params se sr st a)) = emitted a @ es"
  using afterAdmission_emitted [of env params se sr st a]
  by (auto simp add: admitted_eq catch_block_fields split: sum.splits)


lemma makeRequest_two_calls:
  assumes "mono (clock_of env)" and "limiter_ok a"
  shows "makeRequest (Suc (Suc n)) env params se sr a
           = Some (admitted env params se sr (fst (admission env a)) (snd (admission env a)))"
proof (cases "rejected_first env a")
  case False
  then show ?thesis
    by (simp add: makeRequest.simps rejected_first_def admission_def case_prod_beta)
next
  case True
  let ?a1 = "snd (on_limiter (hasHitRateLimit (clock_of env)) (snd (Date_now env a)))"
  have "limiter_ok ?a1"
    using assms(2) by (simp add: limiter_ok_def api_fields hasHitRateLimit_cfg)
  then have "fst (on_limiter (hasHitRateLimit (clock_of env))
               (snd (Date_now env (rateLimited env (fst (Date_now env a)) ?a1)))) = False"
    using assms(1) by (rule second_try_admitted [rotated])
  with True show ?thesis
    by (simp add: makeRequest.simps rejected_first_def admission_def case_prod_beta)
qed

lemma admission_frame:
  "sent (snd (admission env a)) = sent a"
  "app (snd (admission env a)) = app a"
  "axiosInstance (snd (admission env a)) = axiosInstance a"
  "logger (snd (admission env a)) = logger a"
  "initializedClient (snd (admission env a)) = initializedClient a"
  "convertTimes (snd (admission env a)) = convertTimes a"
  "refillRate (rateLimiter (snd (admission env a))) = refillRate (rateLimiter a)"
  "maxTokens (rateLimiter (snd (admission env a))) = maxTokens (rateLimiter a)"
  "listening (snd (admission env a)) = listening a"
  by (simp_all add: admission_def case_prod_beta api_fields rateLimited_frame hasHitRateLimit_cfg)

lemma heard_frame:
  "heard e (snd (on_limiter f a)) = heard e a"
  "heard e (snd (Date_now env a)) = heard e a"
  "heard ERROR (emit RESPONSE v a) = heard ERROR a"
  by (auto simp add: heard_def on_limiter_def Date_now_def emit_def split: prod.splits)

lemma rateLimited_heard: "heard ERROR (rateLimited env st a) = heard ERROR a"
proof -
  have w: "\<And>b w. heard ERROR (b\<lparr>waited := w\<rparr>) = heard ERROR b"
    by (simp add: heard_def)
  show ?thesis
    by (simp add: rateLimited_def case_prod_beta Let_def heard_frame w)
qed

lemma admission_heard: "heard ERROR (snd (admission env a)) = heard ERROR a"
  by (simp add: admission_def case_prod_beta heard_frame rateLimited_heard)

lemma admission_waited:
  "waited (snd (admission env a)) =
     (if rejected_first env a
      then waited (rateLimited env (fst (Date_now env a))
                     (snd (on_limiter (hasHitRateLimit (clock_of env)) (snd (Date_now env a)))))
      else waited a)"
  by (simp add: admission_def rejected_first_def case_prod_beta api_fields)

lemma admission_emitted:
  "emitted (snd (admission env a)) =
     (if rejected_first env a
      then emitted (rateLimited env (fst (Date_now env a))
                     (snd (on_limiter (hasHitRateLimit (clock_of env)) (snd (Date_now env a)))))
      else emitted a)"
  by (simp add: admission_def rejected_first_def case_prod_beta api_fields)

text \<open>
  Claim C5, as amended. On a clock that never runs backwards and with a limiter whose
  capacity and interval are positive, a dispatch returns within two calls of
  \<open>_makeRequest\<close>, and it has then handed exactly its own request to axios: there is no
  result without the HTTP call. If the limiter rejects the first call, the dispatch first
  emits, on the "response" channel, a notice whose \<open>type\<close> is the constant \<open>"ratelimit"\<close>
  (not the type of the operation), with \<open>success: false\<close>, the waiting time as text in its
  message and a \<open>time\<close>; it then waits for admission once. If the first call is admitted
  there is no wait.
\<close>

theorem dispatch_reaches_http_after_one_wait:
  assumes "mono (clock_of env)" and "limiter_ok a"
  shows "\<exists>c a'. makeRequest (Suc (Suc n)) env params se sr a = Some (c, a')
     \<and> sent a' = sent a @ [request_of a params]
     \<and> (if rejected_first env a
        then length (waited a') = Suc (length (waited a))
           \<and> (\<exists>t es. emitted a' = emitted a @
                 (''response'',
                  JObj [(''type'', JStr ''ratelimit''), (''success'', JBool False),
                        (''message'', JStr (''Client Api rate limit hit please wait ''
                           @ wait_text env (snd (on_limiter (hasHitRateLimit (clock_of env))
                                                  (snd (Date_now env a)))))),
                        (''time'', JNum t)]) # es)
        else waited a' = waited a)"
proof -
  let ?b = "snd (admission env a)"
  let ?a1 = "snd (on_limiter (hasHitRateLimit (clock_of env)) (snd (Date_now env a)))"
  obtain c a' where r: "admitted env params se sr (fst (admission env a)) ?b = (c, a')"
    by fastforce
  have run: "makeRequest (Suc (Suc n)) env params se sr a = Some (c, a')"
    using makeRequest_two_calls [OF assms] r by simp
  have s: "sent a' = sent a @ [request_of a params]"
    using admitted_frame(1) [of env params se sr "fst (admission env a)" ?b] r
    by (simp add: admission_frame request_of_def)
  have w: "waited a' = waited ?b"
    using admitted_frame(8) [of env params se sr "fst (admission env a)" ?b] r by simp
  obtain es where es: "emitted a' = emitted ?b @ es"
    using admitted_emitted [of env params se sr "fst (admission env a)" ?b] r by auto
  show ?thesis
  proof (cases "rejected_first env a")
    case False
    then have "waited a' = waited a" using w by (simp add: admission_waited)
    with run s False show ?thesis by simp
  next
    case True
    have l: "length (waited a') = Suc (length (waited a))"
      using True w by (simp add: admission_waited rateLimited_frame api_fields)
    obtain t where "emitted ?b = emitted a @
       [(''response'', JObj [(''type'', JStr ''ratelimit''), (''success'', JBool False),
          (''message'', JStr (''Client Api rate limit hit please wait '' @ wait_text env ?a1)),
          (''time'', JNum t)])]"
      using True rateLimited_emitted [of env "fst (Date_now env a)" ?a1]
      by (auto simp add: admission_emitted api_fields)
    then have "emitted a' = emitted a @
       (''response'', JObj [(''type'', JStr ''ratelimit''), (''success'', JBool False),
          (''message'', JStr (''Client Api rate limit hit please wait '' @ wait_text env ?a1)),
          (''time'', JNum t)]) # es"
      using es by simp
    with run s l True show ?thesis by simp
  qed
qed

theorem dispatch_reaches_http_after_one_wait_witness:
  "rejected_first (demo_env (Responds 200 (JObj [(''success'', JBool True)]))) (demo_client 0)
   \<and> map_option (sent \<circ> snd)
       (makeRequest (Suc (Suc 0)) (demo_env (Responds 200 (JObj [(''success'', JBool True)])))
          [(''type'', JStr ''login'')] False False (demo_client 0))
     = Some [JObj [(''type'', JStr ''login''), (''name'', JStr ''demo''), (''ownerid'', JStr ''owner01'')]]
   \<and> map_option (length \<circ> waited \<circ> snd)
       (makeRequest (Suc (Suc 0)) (demo_env (Responds 200 (JObj [(''success'', JBool True)])))
          [(''type'', JStr ''login'')] False False (demo_client 0))
     = Some 1"
proof -
  let ?env = "demo_env (Responds 200 (JObj [(''success'', JBool True)]))"
  have r: "rejected_first ?env (demo_client 0)"
    by (simp add: rejected_first_def run_defs small_floors)
  have m: "mono (clock_of ?env)" by (rule demo_mono)
  have ok: "limiter_ok (demo_client 0)" by (rule demo_ok)
  obtain c a' where "makeRequest (Suc (Suc 0)) ?env [(''type'', JStr ''login'')] False False (demo_client 0)
                       = Some (c, a')"
    and "sent a' = sent (demo_client 0) @ [request_of (demo_client 0) [(''type'', JStr ''login'')]]"
    and "length (waited a') = Suc (length (waited (demo_client 0)))"
    using dispatch_reaches_http_after_one_wait [OF m ok, of 0 "[(''type'', JStr ''login'')]" False False] r
    by auto
  then show ?thesis
    using r by (simp add: request_of_def demo_client_def demo_app_def)
qed

text \<open>
  Claim C5 as stated fails on the content of the notice: for a \<open>login\<close> request on an empty
  bucket, the notice carries the type \<open>"ratelimit"\<close>, and the type of the operation is in none
  of its fields.
\<close>

theorem rate_limit_notice_counterexample:
  "map_option (hd \<circ> emitted \<circ> snd)
     (makeRequest (Suc (Suc 0))
        (demo_env (Responds 200 (JObj [(''success'', JBool True), (''message'', JStr ''Logged in!'')])))
        [(''type'', JStr ''login''), (''sessionid'', JStr ''s1'')] False False (demo_client 0))
   = Some (''response'', JObj [(''type'', JStr ''ratelimit''), (''success'', JBool False),
              (''message'', JStr ''Client Api rate limit hit please wait 4 seconds''),
              (''time'', JNum (- 40))])
   \<and> JStr ''login'' \<notin> set (map snd [(''type'', JStr ''ratelimit''), (''success'', JBool False),
              (''message'', JStr ''Client Api rate limit hit please wait 4 seconds''),
              (''time'', JNum (- 40))])"
proof -
  let ?env = "demo_env (Responds 200 (JObj [(''success'', JBool True), (''message'', JStr ''Logged in!'')]))"
  let ?p = "[(''type'', JStr ''login''), (''sessionid'', JStr ''s1'')]"
  let ?a1 = "(demo_client 0)\<lparr>rateLimiter := \<lparr>tokens = 0, lastRefillTime = 20, refillRate = 5000,
                                               maxTokens = 10\<rparr>, readings := 3\<rparr>"
  let ?b = "snd (admission ?env (demo_client 0))"
  let ?notice = "(''response'', JObj [(''type'', JStr ''ratelimit''), (''success'', JBool False),
              (''message'', JStr ''Client Api rate limit hit please wait 4 seconds''),
              (''time'', JNum (- 40))])"
  have r: "rejected_first ?env (demo_client 0)"
    by (simp add: rejected_first_def run_defs small_floors)
  have a1: "snd (on_limiter (hasHitRateLimit (clock_of ?env)) (snd (Date_now ?env (demo_client 0)))) = ?a1"
    by (simp add: run_defs small_floors)
  have st: "fst (Date_now ?env (demo_client 0)) = 10"
    by (simp add: Date_now_def demo_env_def demo_client_def steady_def)
  have wt: "wait_text ?env ?a1 = ''4 seconds''"
    by (simp add: wait_text_def run_defs small_floors text_of_4 plural_def)
  have rd: "readings (snd (on_limiter
              (getTimeUntilCanMakeRequestString (other_text ?env) (clock_of ?env)) ?a1)) = 5"
    by (simp add: api_fields getTimeString_state getTimeUntilCanMakeRequest_def refill_eq Let_def
          demo_env_def demo_client_def steady_def small_floors)
  obtain c a' where adm: "admitted ?env ?p False False (fst (admission ?env (demo_client 0))) ?b = (c, a')"
    by fastforce
  have run: "makeRequest (Suc (Suc 0)) ?env ?p False False (demo_client 0) = Some (c, a')"
    using makeRequest_two_calls [OF demo_mono demo_ok] adm by simp
  obtain es where es: "emitted a' = emitted ?b @ es"
    using admitted_emitted [of ?env ?p False False "fst (admission ?env (demo_client 0))" ?b] adm
    by auto
  have "emitted ?b = emitted (rateLimited ?env 10 ?a1)"
    using r by (simp add: admission_emitted a1 st)
  also have "\<dots> = [?notice]"
    by (simp add: rateLimited_emitted_eq wt rd) (simp add: demo_client_def demo_env_def steady_def)
  finally have "hd (emitted a') = ?notice"
    using es by simp
  then show ?thesis using run by simp
qed

subsection \<open>A failure of the transport\<close>

lemma admitted_transport_fails:
  assumes "transport env (length (sent a)) = Fails e"
  shows "fst (admitted env params se sr st a) =
           (if heard ERROR a then Resolved JUndefined
            else Rejected (Raised (unhandled_error env (error_event params (JStr (message_of e)) K_U))))"
    and "emitted (snd (admitted env params se sr st a))
           = emitted a @ [(''error'', error_event params (JStr (message_of e)) K_U)]"
    and "sent (snd (admitted env params se sr st a)) = sent a @ [request_of a params]"
proof -
  have f: "afterAdmission env params se sr st a = (Inl e, a\<lparr>sent := sent a @ [request_of a params]\<rparr>)"
    using assms by (simp add: afterAdmission_def Let_def request_of_def)
  have h: "heard ERROR (a\<lparr>sent := sent a @ [request_of a params]\<rparr>) = heard ERROR a"
    by (simp add: heard_def)
  show "fst (admitted env params se sr st a) =
           (if heard ERROR a then Resolved JUndefined
            else Rejected (Raised (unhandled_error env (error_event params (JStr (message_of e)) K_U))))"
    by (simp add: admitted_eq f catch_block_result h)
  show "emitted (snd (admitted env params se sr st a))
           = emitted a @ [(''error'', error_event params (JStr (message_of e)) K_U)]"
    by (simp add: admitted_eq f catch_block_fields)
  show "sent (snd (admitted env params se sr st a)) = sent a @ [request_of a params]"
    by (simp add: admitted_frame)
qed

text \<open>
  With a listener for \<open>"error"\<close>, a dispatch whose HTTP call throws emits the notification
  with code \<open>unknown\<close> and resolves with \<open>undefined\<close>. Without one, the \<open>emit\<close> of the
  \<open>catch\<close> block throws and the dispatch rejects.
\<close>

lemma transport_failure_resolves_undefined:
  assumes "mono (clock_of env)" and "limiter_ok a" and "listening a"
    and "transport env (length (sent a)) = Fails e"
  shows "\<exists>a'. makeRequest (Suc (Suc n)) env params se sr a = Some (Resolved JUndefined, a')
     \<and> last (emitted a') = (''error'', error_event params (JStr (message_of e)) K_U)"
proof -
  let ?b = "snd (admission env a)"
  obtain c a' where r: "admitted env params se sr (fst (admission env a)) ?b = (c, a')"
    by fastforce
  have t: "transport env (length (sent ?b)) = Fails e"
    using assms(4) by (simp add: admission_frame)
  have h: "heard ERROR ?b"
    using assms(3) by (intro listening_heard) (simp add: admission_frame)
  have run: "makeRequest (Suc (Suc n)) env params se sr a = Some (c, a')"
    using makeRequest_two_calls [OF assms(1,2)] r by simp
  have "c = Resolved JUndefined"
    using admitted_transport_fails(1) [OF t, of params se sr "fst (admission env a)"] r h by simp
  moreover have "last (emitted a') = (''error'', error_event params (JStr (message_of e)) K_U)"
    using admitted_transport_fails(2) [OF t, of params se sr "fst (admission env a)"] r by simp
  ultimately show ?thesis using run by simp
qed

lemma transport_failure_unheard:
  assumes "mono (clock_of env)" and "limiter_ok a" and "\<not> heard ERROR a"
    and "transport env (length (sent a)) = Fails e"
  shows "\<exists>a'. makeRequest (Suc (Suc n)) env params se sr a
           = Some (Rejected (Raised (unhandled_error env
                      (error_event params (JStr (message_of e)) K_U))), a')"
proof -
  let ?b = "snd (admission env a)"
  obtain c a' where r: "admitted env params se sr (fst (admission env a)) ?b = (c, a')"
    by fastforce
  have t: "transport env (length (sent ?b)) = Fails e"
    using assms(4) by (simp add: admission_frame)
  have h: "\<not> heard ERROR ?b"
    using assms(3) by (simp add: admission_heard)
  have run: "makeRequest (Suc (Suc n)) env params se sr a = Some (c, a')"
    using makeRequest_two_calls [OF assms(1,2)] r by simp
  have "c = Rejected (Raised (unhandled_error env (error_event params (JStr (message_of e)) K_U)))"
    using admitted_transport_fails(1) [OF t, of params se sr "fst (admission env a)"] r h by simp
  then show ?thesis using run by simp
qed

text \<open>
  Claim C3 at a failing input. A \<open>check\<close> request on a fresh client on which a listener for
  \<open>"error"\<close> has been registered, with axios throwing \<open>AxiosError("Network Error")\<close>: the
  throw is caught and the "error" notification with code \<open>unknown\<close> is emitted, but the
  dispatch resolves with \<open>undefined\<close>, not with a result that has a \<open>success\<close> field.
\<close>

theorem transport_failure_example:
  "makeRequest (Suc (Suc 0)) (demo_env (Fails (AxiosError ''Network Error'')))
     [(''type'', JStr ''check''), (''sessionid'', JStr ''s1'')] False False
     (on ''error'' (demo_client 10))
   = Some (Resolved JUndefined,
       (demo_client 10)\<lparr>rateLimiter := \<lparr>tokens = 9, lastRefillTime = 20, refillRate = 5000, maxTokens = 10\<rparr>,
          listeners := [(''error'', False)],
          emitted := [(''error'', JObj [(''type'', JStr ''check''), (''success'', JBool False),
                         (''message'', JStr ''Network Error''), (''errorCode'', JStr ''unknown'')])],
          sent := [JObj [(''type'', JStr ''check''), (''sessionid'', JStr ''s1''),
                         (''name'', JStr ''demo''), (''ownerid'', JStr ''owner01'')]],
          readings := 3\<rparr>)"
  by (simp add: run_defs small_floors)

text \<open>
  The same request on the client as the constructor leaves it, with no listener: the
  \<open>emit\<close> of the \<open>catch\<close> block throws, and the dispatch rejects with that error.
\<close>

lemma transport_failure_unheard_example:
  "makeRequest (Suc (Suc 0)) (demo_env (Fails (AxiosError ''Network Error'')))
     [(''type'', JStr ''check''), (''sessionid'', JStr ''s1'')] False False (demo_client 10)
   = Some (Rejected (Raised (Error ''Unhandled error. ({...})'')),
       (demo_client 10)\<lparr>rateLimiter := \<lparr>tokens = 9, lastRefillTime = 20, refillRate = 5000, maxTokens = 10\<rparr>,
          emitted := [(''error'', JObj [(''type'', JStr ''check''), (''success'', JBool False),
                         (''message'', JStr ''Network Error''), (''errorCode'', JStr ''unknown'')])],
          sent := [JObj [(''type'', JStr ''check''), (''sessionid'', JStr ''s1''),
                         (''name'', JStr ''demo''), (''ownerid'', JStr ''owner01'')]],
          readings := 3\<rparr>)"
  by (simp add: run_defs small_floors)

text \<open>
  The early return under \<open>skipError\<close>: a response with \<open>success: false\<close> resolves with
  \<open>undefined\<close> as well, and no "error" notification is emitted.
\<close>

lemma skipError_failure_example:
  "map_option (\<lambda>r. (fst r, emitted (snd r)))
     (makeRequest (Suc (Suc 0))
        (demo_env (Responds 200 (JObj [(''success'', JBool False), (''message'', JStr ''Variable not found'')])))
        [(''type'', JStr ''getvar''), (''sessionid'', JStr ''s1''), (''var'', JStr ''metaData'')]
        True True (demo_client 10))
   = Some (Resolved JUndefined,
       [(''request'', JObj [(''type'', JStr ''getvar''),
          (''request'', JObj [(''url'', JStr ''https://keyauth.win/api/1.2/''),
             (''params'', JObj [(''type'', JStr ''getvar''), (''sessionid'', JStr ''s1''),
                                (''var'', JStr ''metaData'')])]),
          (''response'', JObj [(''success'', JBool False), (''message'', JStr ''Variable not found''),
             (''time'', JNum 20)])])])"
  by (simp add: run_defs small_floors)

subsection \<open>Normalization and classification\<close>

text \<open>
  Claim C6. The normalization step applies three rules. For a \<open>log\<close> operation answered with
  status 200 the result is exactly \<open>{success: true, message: "Log successfully sent."}\<close>,
  whatever the payload. For a \<open>webhook\<close> operation answered with status 200 the fields
  \<open>success\<close>, \<open>message\<close>, \<open>nonce\<close> and \<open>response\<close> of the payload become \<open>success\<close>,
  \<open>message\<close>, \<open>nonce\<close> and \<open>data\<close>. A payload equal to the string \<open>"KeyAuth_Invalid"\<close> is
  replaced by \<open>{success: false, message: "Keyauth API client not set up correctly!", time}\<close>:
  it is treated as that object is, and that object is the result for every operation to
  which neither of the other two rules applies. No other payload is changed.
\<close>

theorem normalize_rules:
  "(obj_get params ''type'' = JStr (event_type LOG) \<and> status = 200 \<longrightarrow>
      normalize params status data t
        = Inr (JObj [(''success'', JBool True), (''message'', JStr ''Log successfully sent.'')]))
   \<and> (obj_get params ''type'' = JStr (event_type WEBHOOK) \<and> status = 200 \<longrightarrow>
      normalize params status (JObj ps) t
        = Inr (JObj [(''success'', obj_get ps ''success''), (''message'', obj_get ps ''message''),
                     (''nonce'', obj_get ps ''nonce''), (''data'', obj_get ps ''response'')]))
   \<and> normalize params status (JStr ''KeyAuth_Invalid'') t
        = normalize params status (sentinel_result t) t
   \<and> (\<not> (obj_get params ''type'' = JStr (event_type LOG) \<and> status = 200)
      \<and> \<not> (obj_get params ''type'' = JStr (event_type WEBHOOK) \<and> status = 200) \<longrightarrow>
      normalize params status (JStr ''KeyAuth_Invalid'') t = Inr (sentinel_result t)
      \<and> (data \<noteq> JStr ''KeyAuth_Invalid'' \<longrightarrow> normalize params status data t = Inr data))"
  by (simp add: normalize_def sentinel_result_def Let_def)

theorem normalize_rules_witness:
  "normalize [(''type'', JStr ''log'')] 200 JNull 7
     = Inr (JObj [(''success'', JBool True), (''message'', JStr ''Log successfully sent.'')])
   \<and> normalize [(''type'', JStr ''webhook'')] 200
        (JObj [(''success'', JBool True), (''message'', JStr ''ok''), (''nonce'', JStr ''n1''),
               (''response'', JObj [(''x'', JNum 1)])]) 7
     = Inr (JObj [(''success'', JBool True), (''message'', JStr ''ok''), (''nonce'', JStr ''n1''),
                  (''data'', JObj [(''x'', JNum 1)])])
   \<and> normalize [(''type'', JStr ''login'')] 200 (JStr ''KeyAuth_Invalid'') 7 = Inr (sentinel_result 7)
   \<and> normalize [(''type'', JStr ''login'')] 200 (JObj [(''success'', JBool True)]) 7
     = Inr (JObj [(''success'', JBool True)])"
  using normalize_rules [where params = "[(''type'', JStr ''log'')]" and status = 200
                           and data = JNull and t = 7, THEN conjunct1]
    normalize_rules [where params = "[(''type'', JStr ''webhook'')]" and status = 200 and t = 7
       and ps = "[(''success'', JBool True), (''message'', JStr ''ok''), (''nonce'', JStr ''n1''),
               (''response'', JObj [(''x'', JNum 1)])]", THEN conjunct2, THEN conjunct1]
    normalize_rules [where params = "[(''type'', JStr ''login'')]" and status = 200 and t = 7
       and data = "JObj [(''success'', JBool True)]", THEN conjunct2, THEN conjunct2, THEN conjunct2]
  by (simp add: obj_get_def)

text \<open>
  Claim C2. For a request that reached axios and whose normalized response has \<open>success\<close>
  equal to \<open>false\<close>, with the error notification not suppressed, the last notification
  emitted in the \<open>try\<close> block is an "error" that carries the type of the request, and its
  \<open>errorCode\<close> is the one that the ordered rules of the specification give for the text of
  the response's message and the \<open>sessionid\<close> of the request; no other "error" is emitted
  there.
\<close>

theorem error_classification:
  assumes "transport env (length (sent a)) = Responds status data"
    and "normalize params status data (clock_of env (readings a) - startTime) = Inr d"
    and "get_prop d ''success'' = Inr (JBool False)"
    and "\<not> skipError"
  shows "\<exists>m pre. get_prop d ''message'' = Inr m
     \<and> emitted (snd (afterAdmission env params skipError skipResponse startTime a))
         = emitted a @ pre @ [(''error'', errorPayload params m)]
     \<and> ''error'' \<notin> set (map fst pre)
     \<and> get_prop (errorPayload params m) ''errorCode''
         = Inr (JStr (error_code (classified_kind (obj_get params ''sessionid'') (to_String m))))
     \<and> get_prop (errorPayload params m) ''type'' = Inr (obj_get params ''type'')"
proof -
  obtain m where m: "get_prop d ''message'' = Inr m"
    using assms(3) by (cases d) simp_all
  have code: "get_prop (errorPayload params m) ''errorCode''
         = Inr (JStr (error_code (classified_kind (obj_get params ''sessionid'') (to_String m))))"
    by (simp add: errorPayload_def classified_kind_def error_event_def obj_get_def)
  have ty: "get_prop (errorPayload params m) ''type'' = Inr (obj_get params ''type'')"
    by (simp add: errorPayload_def error_event_def obj_get_def)
  show ?thesis
  proof (cases skipResponse)
    case True
    have "emitted (snd (afterAdmission env params skipError skipResponse startTime a))
         = emitted a @ [(''request'', JObj [(''type'', obj_get params ''type''),
                (''request'', JObj [(''url'', JStr (baseURL (axiosInstance a))), (''params'', JObj params)]),
                (''response'', JObj (obj_set (spread d) ''time'' (JNum (clock_of env (readings a) - startTime))))])]
           @ [(''error'', errorPayload params m)]"
      using assms m True
      by (simp add: afterAdmission_def Date_now_def emit_def emit_error_def Let_def)
    then show ?thesis using m code ty by (intro exI conjI) (assumption, assumption, simp_all)
  next
    case False
    have "emitted (snd (afterAdmission env params skipError skipResponse startTime a))
         = emitted a @ [(''response'', JObj (obj_set (obj_set (spread d) ''time'' (JNum (clock_of env (readings a) - startTime))) ''type'' (obj_get params ''type''))),
               (''request'', JObj [(''type'', obj_get params ''type''),
                (''request'', JObj [(''url'', JStr (baseURL (axiosInstance a))), (''params'', JObj params)]),
                (''response'', JObj (obj_set (spread d) ''time'' (JNum (clock_of env (readings a) - startTime))))])]
           @ [(''error'', errorPayload params m)]"
      using assms m False
      by (simp add: afterAdmission_def Date_now_def emit_def emit_error_def Let_def)
    then show ?thesis using m code ty by (intro exI conjI) (assumption, assumption, simp_all)
  qed
qed

theorem error_classification_witness:
  "last (emitted (snd (afterAdmission
      (demo_env (Responds 200 (JObj [(''success'', JBool False),
                                     (''message'', JStr ''Session not found. Use latest code.'')])))
      [(''type'', JStr ''check''), (''sessionid'', JStr [])] False False 10 (demo_client 10))))
   = (''error'', JObj [(''type'', JStr ''check''), (''success'', JBool False),
                       (''message'', JStr ''Session not found. Use latest code.''),
                       (''errorCode'', JStr ''noSessionID'')])"
proof -
  let ?d = "JObj [(''success'', JBool False), (''message'', JStr ''Session not found. Use latest code.'')]"
  let ?env = "demo_env (Responds 200 ?d)"
  let ?p = "[(''type'', JStr ''check''), (''sessionid'', JStr [])]"
  have h1: "transport ?env (length (sent (demo_client 10))) = Responds 200 ?d"
    by (simp add: demo_env_def)
  have h2: "normalize ?p 200 ?d (clock_of ?env (readings (demo_client 10)) - 10) = Inr ?d"
    by (simp add: normalize_def obj_get_def)
  have h3: "get_prop ?d ''success'' = Inr (JBool False)"
    by (simp add: obj_get_def)
  obtain m pre where m: "get_prop ?d ''message'' = Inr m"
    and e: "emitted (snd (afterAdmission ?env ?p False False 10 (demo_client 10)))
              = emitted (demo_client 10) @ pre @ [(''error'', errorPayload ?p m)]"
    using error_classification [OF h1 h2 h3, of False False] by blast
  from m have "m = JStr ''Session not found. Use latest code.''"
    by (simp add: obj_get_def)
  then show ?thesis
    using e by (simp add: errorPayload_def error_event_def obj_get_def startsWith_def)
qed

subsection \<open>The adapters\<close>

text \<open>
  Claim C10. On a client whose \<open>initializedClient\<close> flag is set, \<open>init\<close> resolves with
  \<open>{success: true, message: "Already initialized", time}\<close>, where \<open>time\<close> is not positive when
  the clock does not run backwards between the two readings that \<open>init\<close> takes. The client is
  left as it was but for those two readings: the limiter is not consulted, no request is
  handed to axios and nothing is emitted. No call of \<open>_makeRequest\<close> is made, so the bound on
  such calls is irrelevant.
\<close>

theorem init_already_initialized:
  assumes "initializedClient a"
    and "clock_of env (readings a) \<le> clock_of env (Suc (readings a))"
  shows "\<exists>t. t \<le> 0
     \<and> init fuel env a
         = Some (Resolved (JObj [(''success'', JBool True),
                                 (''message'', JStr ''Already initialized''),
                                 (''time'', JNum t)]),
                 a\<lparr>readings := Suc (Suc (readings a))\<rparr>)
     \<and> rateLimiter (a\<lparr>readings := Suc (Suc (readings a))\<rparr>) = rateLimiter a
     \<and> sent (a\<lparr>readings := Suc (Suc (readings a))\<rparr>) = sent a
     \<and> emitted (a\<lparr>readings := Suc (Suc (readings a))\<rparr>) = emitted a
     \<and> waited (a\<lparr>readings := Suc (Suc (readings a))\<rparr>) = waited a"
  using assms by (simp add: init_def Date_now_def)

theorem init_already_initialized_witness:
  "initializedClient ((demo_client 10)\<lparr>initializedClient := True\<rparr>)
   \<and> init 0 (demo_env (Fails (AxiosError ''Network Error'')))
        ((demo_client 10)\<lparr>initializedClient := True\<rparr>)
     = Some (Resolved (JObj [(''success'', JBool True), (''message'', JStr ''Already initialized''),
                             (''time'', JNum (- 10))]),
             (demo_client 10)\<lparr>initializedClient := True, readings := 3\<rparr>)"
  using init_already_initialized
    [of "(demo_client 10)\<lparr>initializedClient := True\<rparr>"
        "demo_env (Fails (AxiosError ''Network Error''))" 0]
  by (auto simp add: demo_client_def demo_env_def steady_def init_def Date_now_def)



















end
